theory Spec2Isabelle
  imports Main
begin

section \<open>Data model of the translation engine (i18n.go)\<close>

text \<open>
  Go errors are values; \<open>nil\<close> is \<open>None\<close> of \<open>error option\<close>.
\<close>

datatype error = Error string

text \<open>
  \<open>type Translation struct\<close>. The field \<open>Backend\<close> holds an interface value; it is
  modelled as a reference to the owning backend object (\<open>None\<close> is the nil interface).
\<close>

record Translation =
  Key :: string
  Locale :: string
  Value :: string
  Backend :: "nat option"

text \<open>
  \<open>type Backend interface\<close>: an object with private state \<open>'s\<close> and the three methods
  of the interface. The implementations live outside i18n.go, so the methods are fields
  of the object. \<open>b_ref\<close> is the identity of the object.
\<close>

record 's Backend =
  b_ref :: nat
  b_state :: 's
  b_LoadTranslations :: "'s \<Rightarrow> Translation list"
  b_SaveTranslation :: "Translation \<Rightarrow> 's \<Rightarrow> error option \<times> 's"
  b_DeleteTranslation :: "Translation \<Rightarrow> 's \<Rightarrow> error option \<times> 's"

text \<open>
  \<open>cache.CacheStoreInterface\<close>, the methods that i18n.go calls: an object with private
  state \<open>'c\<close>. \<open>Unmarshal\<close> writes into the record slot passed by the caller and
  reports an error; it does not change the store.
\<close>

record 'c CacheStore =
  cs_state :: 'c
  cs_Set :: "string \<Rightarrow> Translation \<Rightarrow> 'c \<Rightarrow> error option \<times> 'c"
  cs_Unmarshal :: "string \<Rightarrow> 'c \<Rightarrow> Translation \<Rightarrow> error option \<times> Translation"
  cs_Delete :: "string \<Rightarrow> 'c \<Rightarrow> error option \<times> 'c"

text \<open>\<open>type I18n struct\<close>. The field \<open>value\<close> is named \<open>value_text\<close> here.\<close>

record ('c, 's) I18n =
  scope :: string
  value_text :: string
  Backends :: "'s Backend list"
  FallbackLocales :: "string \<rightharpoonup> string list"
  fallbackLocales :: "string list"
  cacheStore :: "'c CacheStore"

text \<open>\<open>var Default = "en-US"\<close>\<close>

definition Default :: string where
  "Default = ''en-US''"

text \<open>The zero value of \<open>Translation\<close> (\<open>var translation Translation\<close>).\<close>

definition zero_Translation :: Translation where
  "zero_Translation = \<lparr>Key = [], Locale = [], Value = [], Backend = None\<rparr>"

subsection \<open>Method calls on the collaborators\<close>

definition Backend_Load :: "'s Backend \<Rightarrow> Translation list" where
  "Backend_Load b = b_LoadTranslations b (b_state b)"

definition Backend_Save :: "'s Backend \<Rightarrow> Translation \<Rightarrow> error option \<times> 's Backend" where
  "Backend_Save b t =
     (case b_SaveTranslation b t (b_state b) of (err, s') \<Rightarrow> (err, b\<lparr>b_state := s'\<rparr>))"

definition Backend_Delete :: "'s Backend \<Rightarrow> Translation \<Rightarrow> error option \<times> 's Backend" where
  "Backend_Delete b t =
     (case b_DeleteTranslation b t (b_state b) of (err, s') \<Rightarrow> (err, b\<lparr>b_state := s'\<rparr>))"

definition Store_Set :: "'c CacheStore \<Rightarrow> string \<Rightarrow> Translation \<Rightarrow> error option \<times> 'c CacheStore" where
  "Store_Set cs k t =
     (case cs_Set cs k t (cs_state cs) of (err, s') \<Rightarrow> (err, cs\<lparr>cs_state := s'\<rparr>))"

definition Store_Unmarshal :: "'c CacheStore \<Rightarrow> string \<Rightarrow> Translation \<Rightarrow> error option \<times> Translation" where
  "Store_Unmarshal cs k out = cs_Unmarshal cs k (cs_state cs) out"

definition Store_Delete :: "'c CacheStore \<Rightarrow> string \<Rightarrow> error option \<times> 'c CacheStore" where
  "Store_Delete cs k =
     (case cs_Delete cs k (cs_state cs) of (err, s') \<Rightarrow> (err, cs\<lparr>cs_state := s'\<rparr>))"

subsection \<open>The default in-memory cache store\<close>

text \<open>
  Modelled from the spec: the in-memory Cache Store that \<open>New\<close> creates with
  \<open>memory.New()\<close> belongs to the package github.com/qor/cache, not to this repository.
  Section 4.1 of the specification gives its contract: \<open>Set\<close> stores a serializable
  snapshot of the record and overwrites any prior value, \<open>Unmarshal\<close> looks the key up
  and deserializes into the caller's slot or reports not-found, \<open>Delete\<close> is idempotent
  and never an error. The snapshot has the three serialized fields; the owner reference
  is not serialized (\<open>json:"-"\<close>), so deserializing leaves the slot's owner as it was.
\<close>

record Snapshot =
  s_Key :: string
  s_Locale :: string
  s_Value :: string

definition ErrNotFound :: error where
  "ErrNotFound = Error ''not found''"

definition snapshot :: "Translation \<Rightarrow> Snapshot" where
  "snapshot t = \<lparr>s_Key = Key t, s_Locale = Locale t, s_Value = Value t\<rparr>"

definition memory_Set :: "string \<Rightarrow> Translation \<Rightarrow> (string \<rightharpoonup> Snapshot) \<Rightarrow> error option \<times> (string \<rightharpoonup> Snapshot)" where
  "memory_Set k t m = (None, m(k \<mapsto> snapshot t))"

definition memory_Unmarshal :: "string \<Rightarrow> (string \<rightharpoonup> Snapshot) \<Rightarrow> Translation \<Rightarrow> error option \<times> Translation" where
  "memory_Unmarshal k m out =
     (case m k of
        None \<Rightarrow> (Some ErrNotFound, out)
      | Some s \<Rightarrow> (None, out\<lparr>Key := s_Key s, Locale := s_Locale s, Value := s_Value s\<rparr>))"

definition memory_Delete :: "string \<Rightarrow> (string \<rightharpoonup> Snapshot) \<Rightarrow> error option \<times> (string \<rightharpoonup> Snapshot)" where
  "memory_Delete k m = (None, m(k := None))"

definition memory_store :: "(string \<rightharpoonup> Snapshot) \<Rightarrow> (string \<rightharpoonup> Snapshot) CacheStore" where
  "memory_store m =
     \<lparr>cs_state = m, cs_Set = memory_Set, cs_Unmarshal = memory_Unmarshal, cs_Delete = memory_Delete\<rparr>"

definition memory_New :: "(string \<rightharpoonup> Snapshot) CacheStore" where
  "memory_New = memory_store Map.empty"

section \<open>The engine\<close>

text \<open>\<open>strings.Join\<close> and \<open>func cacheKey(strs ...string) string\<close>\<close>

fun strings_Join :: "string list \<Rightarrow> string \<Rightarrow> string" where
  "strings_Join [] sep = []"
| "strings_Join [x] sep = x"
| "strings_Join (x # y # ys) sep = x @ sep @ strings_Join (y # ys) sep"

definition cacheKey :: "string list \<Rightarrow> string" where
  "cacheKey strs = strings_Join strs ''/''"

text \<open>\<open>func (i18n *I18n) AddTranslation\<close>\<close>

definition AddTranslation :: "('c, 's) I18n \<Rightarrow> Translation \<Rightarrow> error option \<times> ('c, 's) I18n" where
  "AddTranslation i18n translation =
     (case Store_Set (cacheStore i18n) (cacheKey [Locale translation, Key translation]) translation of
        (err, cs') \<Rightarrow> (err, i18n\<lparr>cacheStore := cs'\<rparr>))"

text \<open>
  \<open>func (i18n *I18n) loadToCacheStore\<close>: the outer loop runs \<open>i\<close> from
  \<open>len(backends) - 1\<close> down to \<open>0\<close>, the inner loop over the records the backend
  reports, in the order reported; the error of \<open>AddTranslation\<close> is dropped.
\<close>

definition loadToCacheStore :: "('c, 's) I18n \<Rightarrow> ('c, 's) I18n" where
  "loadToCacheStore i18n =
     fold (\<lambda>backend e. fold (\<lambda>translation e'. snd (AddTranslation e' translation)) (Backend_Load backend) e)
       (rev (Backends i18n)) i18n"

text \<open>\<open>func New(backends ...Backend) *I18n\<close>\<close>

definition New :: "'s Backend list \<Rightarrow> (string \<rightharpoonup> Snapshot, 's) I18n" where
  "New backends =
     loadToCacheStore
       \<lparr>scope = [], value_text = [], Backends = backends, FallbackLocales = Map.empty,
        fallbackLocales = [], cacheStore = memory_New\<rparr>"

text \<open>\<open>func (i18n *I18n) SetCacheStore\<close>\<close>

definition SetCacheStore :: "('c, 's) I18n \<Rightarrow> 'c CacheStore \<Rightarrow> ('c, 's) I18n" where
  "SetCacheStore i18n cs = loadToCacheStore (i18n\<lparr>cacheStore := cs\<rparr>)"

text \<open>
  \<open>func (i18n *I18n) SaveTranslation\<close>: the loop over \<open>i18n.Backends\<close>. \<open>tried\<close> are
  the backends already asked (each in the state its own save left it in), the list
  argument the ones still to ask.
\<close>

fun SaveTranslation_loop ::
  "('c, 's) I18n \<Rightarrow> Translation \<Rightarrow> 's Backend list \<Rightarrow> 's Backend list \<Rightarrow> error option \<times> ('c, 's) I18n" where
  "SaveTranslation_loop i18n translation tried [] =
     (Some (Error ''failed to save translation''), i18n\<lparr>Backends := tried\<rparr>)"
| "SaveTranslation_loop i18n translation tried (backend # rest) =
     (case Backend_Save backend translation of
        (None, backend') \<Rightarrow>
          (None, snd (AddTranslation (i18n\<lparr>Backends := tried @ backend' # rest\<rparr>) translation))
      | (Some err, backend') \<Rightarrow>
          SaveTranslation_loop i18n translation (tried @ [backend']) rest)"

definition SaveTranslation :: "('c, 's) I18n \<Rightarrow> Translation \<Rightarrow> error option \<times> ('c, 's) I18n" where
  "SaveTranslation i18n translation = SaveTranslation_loop i18n translation [] (Backends i18n)"

text \<open>
  \<open>func (i18n *I18n) DeleteTranslation\<close>: the loop over \<open>i18n.Backends\<close> calls the
  delete method of each backend and drops what it returns; then the entry is deleted
  from the cache store and the result of that call is returned.
\<close>

fun DeleteTranslation_loop :: "Translation \<Rightarrow> 's Backend list \<Rightarrow> 's Backend list" where
  "DeleteTranslation_loop translation [] = []"
| "DeleteTranslation_loop translation (backend # rest) =
     (case Backend_Delete backend translation of
        (err, backend') \<Rightarrow> backend' # DeleteTranslation_loop translation rest)"

definition DeleteTranslation :: "('c, 's) I18n \<Rightarrow> Translation \<Rightarrow> error option \<times> ('c, 's) I18n" where
  "DeleteTranslation i18n translation =
     (let backends' = DeleteTranslation_loop translation (Backends i18n)
      in case Store_Delete (cacheStore i18n) (cacheKey [Locale translation, Key translation]) of
           (err, cs') \<Rightarrow> (err, i18n\<lparr>Backends := backends', cacheStore := cs'\<rparr>))"

text \<open>
  \<open>func (i18n *I18n) T\<close>, the loop over \<open>fallbackLocales\<close> (lines 140 to 144): every
  probe writes into the same slot \<open>translation\<close>; the loop breaks at the first probe
  without error whose value is not empty.
\<close>

fun T_fallbacks :: "'c CacheStore \<Rightarrow> string \<Rightarrow> string list \<Rightarrow> Translation \<Rightarrow> Translation" where
  "T_fallbacks cs key [] translation = translation"
| "T_fallbacks cs key (fallbackLocale # rest) translation =
     (case Store_Unmarshal cs (cacheKey [fallbackLocale, key]) translation of
        (err, translation') \<Rightarrow>
          if err = None \<and> Value translation' \<noteq> [] then translation'
          else T_fallbacks cs key rest translation')"

text \<open>
  \<open>T\<close>, lines 119 to 160: from the call to the resolved \<open>translation\<close>. The result
  is the effective locale, the resolved record and the engine after the call.
\<close>

definition T_resolve :: "('c, 's) I18n \<Rightarrow> string \<Rightarrow> string \<Rightarrow> string \<times> Translation \<times> ('c, 's) I18n" where
  "T_resolve i18n locale0 key =
     (let val = value_text i18n;
          locale = (if locale0 = [] then Default else locale0);
          fallbacks1 = (case FallbackLocales i18n locale of
                          Some locales \<Rightarrow> fallbackLocales i18n @ locales
                        | None \<Rightarrow> fallbackLocales i18n);
          fallbacks = fallbacks1 @ [Default];
          translationKey = (if scope i18n \<noteq> [] then strings_Join [scope i18n, key] ''.'' else key)
      in case Store_Unmarshal (cacheStore i18n) (cacheKey [locale, key]) zero_Translation of
           (err, translation) \<Rightarrow>
             if err \<noteq> None \<or> Value translation = [] then
               (let translation1 = T_fallbacks (cacheStore i18n) key fallbacks translation
                in if Value translation1 = [] then
                     (case Store_Unmarshal (cacheStore i18n) (cacheKey [Default, key]) translation1 of
                        (err2, translation2) \<Rightarrow>
                          if err2 \<noteq> None \<or> Value translation2 = [] then
                            (let defaultBackend = (if length (Backends i18n) > 0
                                                   then Some (b_ref (Backends i18n ! 0)) else None);
                                 translation3 = \<lparr>Key = translationKey, Locale = locale, Value = val,
                                                 Backend = defaultBackend\<rparr>
                             in (locale, translation3, snd (SaveTranslation i18n translation3)))
                          else (locale, translation2, i18n))
                   else (locale, translation1, i18n))
             else (locale, translation, i18n))"

text \<open>
  \<open>T\<close>, lines 162 to 172. \<open>Parse\<close> is \<open>cldr.Parse\<close>, a function of another package and
  a parameter here; \<open>Inl\<close> is its error.
\<close>

definition T ::
  "(string \<Rightarrow> string \<Rightarrow> 'a list \<Rightarrow> error + string) \<Rightarrow> ('c, 's) I18n \<Rightarrow> string \<Rightarrow> string \<Rightarrow> 'a list
     \<Rightarrow> string \<times> ('c, 's) I18n" where
  "T Parse i18n locale0 key args =
     (case T_resolve i18n locale0 key of
        (locale, translation, i18n') \<Rightarrow>
          (let val = (if Value translation \<noteq> [] then Value translation else key);
               val' = (case Parse locale val args of Inr str \<Rightarrow> str | Inl err \<Rightarrow> val)
           in (val', i18n')))"

section \<open>Notions used to state the properties\<close>

text \<open>The effective locale of a call of \<open>T\<close> (lines 125 to 127).\<close>

definition T_locale :: "string \<Rightarrow> string" where
  "T_locale locale0 = (if locale0 = [] then Default else locale0)"

text \<open>
  The locales whose cache entries \<open>T\<close> reads, in the order of the reads: the effective
  locale (line 139), then the list built in lines 122 and 129 to 132, that is the
  engine's own \<open>fallbackLocales\<close> (empty in every engine that \<open>New\<close> builds), the entry of
  \<open>FallbackLocales\<close> for the effective locale, and \<open>Default\<close>.
\<close>

definition T_probes :: "('c, 's) I18n \<Rightarrow> string \<Rightarrow> string list" where
  "T_probes i18n locale0 =
     T_locale locale0 #
       fallbackLocales i18n @
       (case FallbackLocales i18n (T_locale locale0) of Some locales \<Rightarrow> locales | None \<Rightarrow> []) @
       [Default]"

text \<open>
  What a probe of the in-memory store for a locale and a key yields as value: the empty
  string when the entry is missing, the stored value otherwise.
\<close>

definition cached_value :: "(string \<rightharpoonup> Snapshot) \<Rightarrow> string \<Rightarrow> string \<Rightarrow> string" where
  "cached_value m locale key =
     (case m (cacheKey [locale, key]) of None \<Rightarrow> [] | Some s \<Rightarrow> s_Value s)"

text \<open>The record that \<open>T\<close> builds in lines 150 to 154 when no probe gave a value.\<close>

definition T_placeholder :: "('c, 's) I18n \<Rightarrow> string \<Rightarrow> string \<Rightarrow> Translation" where
  "T_placeholder i18n locale0 key =
     \<lparr>Key = (if scope i18n \<noteq> [] then scope i18n @ ''.'' @ key else key),
      Locale = T_locale locale0,
      Value = value_text i18n,
      Backend = (case Backends i18n of [] \<Rightarrow> None | backend # _ \<Rightarrow> Some (b_ref backend))\<rparr>"

text \<open>Lines 168 to 170: the formatter's text, or the value as it is when it fails.\<close>

definition T_format ::
  "(string \<Rightarrow> string \<Rightarrow> 'a list \<Rightarrow> error + string) \<Rightarrow> string \<Rightarrow> string \<Rightarrow> 'a list \<Rightarrow> string" where
  "T_format Parse locale val args = (case Parse locale val args of Inr str \<Rightarrow> str | Inl err \<Rightarrow> val)"

text \<open>The engine after \<open>n\<close> calls of \<open>T\<close> with the same locale, key and arguments.\<close>

fun T_repeat ::
  "(string \<Rightarrow> string \<Rightarrow> 'a list \<Rightarrow> error + string) \<Rightarrow> nat \<Rightarrow> ('c, 's) I18n \<Rightarrow> string \<Rightarrow> string \<Rightarrow> 'a list
     \<Rightarrow> ('c, 's) I18n" where
  "T_repeat Parse 0 i18n locale0 key args = i18n"
| "T_repeat Parse (Suc n) i18n locale0 key args =
     snd (T Parse (T_repeat Parse n i18n locale0 key args) locale0 key args)"

text \<open>Lines 162 to 166: the value that \<open>T\<close> hands to the formatter.\<close>

definition T_value :: "('c, 's) I18n \<Rightarrow> string \<Rightarrow> string \<Rightarrow> string" where
  "T_value i18n locale0 key =
     (let translation = fst (snd (T_resolve i18n locale0 key))
      in if Value translation \<noteq> [] then Value translation else key)"

text \<open>
  What \<open>AddTranslation\<close> does to the content of the in-memory store: the snapshot of
  the record is stored under the cache key of its locale and key.
\<close>

definition cache_put :: "Translation \<Rightarrow> (string \<rightharpoonup> Snapshot) \<Rightarrow> (string \<rightharpoonup> Snapshot)" where
  "cache_put t m = m(cacheKey [Locale t, Key t] \<mapsto> snapshot t)"

section \<open>Sample collaborators\<close>

text \<open>
  A backend that holds a list of records and counts the calls of its save and delete
  methods. It accepts a save or refuses every save; its delete removes the records of
  the locale and key and fails when it holds none.
\<close>

record bstate =
  held :: "Translation list"
  calls :: nat

definition same_entry :: "Translation \<Rightarrow> Translation \<Rightarrow> bool" where
  "same_entry t u = (Locale u = Locale t \<and> Key u = Key t)"

definition list_backend :: "nat \<Rightarrow> bool \<Rightarrow> Translation list \<Rightarrow> bstate Backend" where
  "list_backend r accepts ts =
     \<lparr>b_ref = r,
      b_state = \<lparr>held = ts, calls = 0\<rparr>,
      b_LoadTranslations = held,
      b_SaveTranslation = (\<lambda>t s.
         if accepts then (None, \<lparr>held = filter (\<lambda>u. \<not> same_entry t u) (held s) @ [t], calls = Suc (calls s)\<rparr>)
         else (Some (Error ''read only''), s\<lparr>calls := Suc (calls s)\<rparr>)),
      b_DeleteTranslation = (\<lambda>t s.
         if list_ex (same_entry t) (held s)
         then (None, \<lparr>held = filter (\<lambda>u. \<not> same_entry t u) (held s), calls = Suc (calls s)\<rparr>)
         else (Some (Error ''no such record''), s\<lparr>calls := Suc (calls s)\<rparr>))\<rparr>"

text \<open>A cache store out of reach: every method reports an error and nothing is stored.\<close>

definition unreachable_store :: "unit CacheStore" where
  "unreachable_store =
     \<lparr>cs_state = (),
      cs_Set = (\<lambda>k t s. (Some (Error ''connection refused''), s)),
      cs_Unmarshal = (\<lambda>k s out. (Some (Error ''connection refused''), out)),
      cs_Delete = (\<lambda>k s. (Some (Error ''connection refused''), s))\<rparr>"

text \<open>Two formatters: one returns the text as it is, one always fails.\<close>

definition Parse_plain :: "string \<Rightarrow> string \<Rightarrow> unit list \<Rightarrow> error + string" where
  "Parse_plain locale text args = Inr text"

definition Parse_fails :: "string \<Rightarrow> string \<Rightarrow> unit list \<Rightarrow> error + string" where
  "Parse_fails locale text args = Inl (Error ''bad template'')"

text \<open>
  A formatter that renders the template \<open>{{/* note */}}\<close>, which is a comment and
  nothing else, to the empty text, and every other text to itself.
\<close>

definition Parse_comment :: "string \<Rightarrow> string \<Rightarrow> unit list \<Rightarrow> error + string" where
  "Parse_comment locale text args = Inr (if text = ''{{/* note */}}'' then [] else text)"

definition tr :: "string \<Rightarrow> string \<Rightarrow> string \<Rightarrow> Translation" where
  "tr locale key val = \<lparr>Key = key, Locale = locale, Value = val, Backend = None\<rparr>"

definition sample_engine :: "'c CacheStore \<Rightarrow> bstate Backend list \<Rightarrow> ('c, bstate) I18n" where
  "sample_engine cs bs =
     \<lparr>scope = [], value_text = [], Backends = bs, FallbackLocales = Map.empty,
      fallbackLocales = [], cacheStore = cs\<rparr>"

text \<open>An engine with the scope \<open>admin\<close>, one accepting backend and a given cache.\<close>

definition admin_engine :: "(string \<rightharpoonup> Snapshot) \<Rightarrow> (string \<rightharpoonup> Snapshot, bstate) I18n" where
  "admin_engine m = (sample_engine (memory_store m) [list_backend 0 True []])\<lparr>scope := ''admin''\<rparr>"

section \<open>The in-memory store and the lookup\<close>

lemma Store_Unmarshal_memory:
  "Store_Unmarshal (memory_store m) k out =
     (case m k of None \<Rightarrow> (Some ErrNotFound, out)
      | Some s \<Rightarrow> (None, out\<lparr>Key := s_Key s, Locale := s_Locale s, Value := s_Value s\<rparr>))"
  by (simp add: Store_Unmarshal_def memory_store_def memory_Unmarshal_def)

lemma Store_Set_memory:
  "Store_Set (memory_store m) k t = (None, memory_store (m(k \<mapsto> snapshot t)))"
  by (simp add: Store_Set_def memory_store_def memory_Set_def)

lemma Store_Delete_memory:
  "Store_Delete (memory_store m) k = (None, memory_store (m(k := None)))"
  by (simp add: Store_Delete_def memory_store_def memory_Delete_def)

lemma probe_hit:
  "cached_value m l key \<noteq> [] \<Longrightarrow>
     \<exists>t'. Store_Unmarshal (memory_store m) (cacheKey [l, key]) t = (None, t') \<and> Value t' = cached_value m l key"
  by (auto simp: Store_Unmarshal_memory cached_value_def split: option.splits)

lemma probe_miss:
  "cached_value m l key = [] \<Longrightarrow> Value t = [] \<Longrightarrow>
     \<exists>err t'. Store_Unmarshal (memory_store m) (cacheKey [l, key]) t = (err, t') \<and> Value t' = []"
  by (auto simp: Store_Unmarshal_memory cached_value_def split: option.splits)

lemma T_fallbacks_memory:
  "Value t = [] \<Longrightarrow>
   Value (T_fallbacks (memory_store m) key ls t) =
     (case find (\<lambda>l. cached_value m l key \<noteq> []) ls of Some l \<Rightarrow> cached_value m l key | None \<Rightarrow> [])"
proof (induction ls arbitrary: t)
  case Nil
  then show ?case by simp
next
  case (Cons l ls)
  show ?case
  proof (cases "cached_value m l key = []")
    case True
    from probe_miss [OF True Cons.prems] obtain err t' where
      p: "Store_Unmarshal (memory_store m) (cacheKey [l, key]) t = (err, t')" and v: "Value t' = []"
      by blast
    show ?thesis using p v True Cons.IH [OF v] by simp
  next
    case False
    from probe_hit [OF False] obtain t' where
      p: "Store_Unmarshal (memory_store m) (cacheKey [l, key]) t = (None, t')"
      and v: "Value t' = cached_value m l key"
      by blast
    show ?thesis using p v False by simp
  qed
qed


lemma find_append_single:
  "find P (xs @ [d]) = (case find P xs of Some x \<Rightarrow> Some x | None \<Rightarrow> if P d then Some d else None)"
  by (induction xs) auto

lemma T_fallbacks_list:
  "(case FallbackLocales i18n (T_locale locale0) of
      Some locales \<Rightarrow> fallbackLocales i18n @ locales | None \<Rightarrow> fallbackLocales i18n) @ [Default]
   = tl (T_probes i18n locale0)"
  by (simp add: T_probes_def split: option.splits)

lemma T_placeholder_eq:
  "\<lparr>Key = (if scope i18n \<noteq> [] then strings_Join [scope i18n, key] ''.'' else key),
    Locale = T_locale locale0, Value = value_text i18n,
    Backend = (if length (Backends i18n) > 0 then Some (b_ref (Backends i18n ! 0)) else None)\<rparr>
   = T_placeholder i18n locale0 key"
  by (cases "Backends i18n") (simp_all add: T_placeholder_def)

lemma T_resolve_memory_hit:
  assumes cs: "cacheStore i18n = memory_store m"
    and f: "find (\<lambda>l. cached_value m l key \<noteq> []) (T_probes i18n locale0) = Some l"
  shows "\<exists>t. T_resolve i18n locale0 key = (T_locale locale0, t, i18n) \<and> Value t = cached_value m l key"
proof (cases "cached_value m (T_locale locale0) key = []")
  case False
  then have l: "l = T_locale locale0" using f by (simp add: T_probes_def)
  from probe_hit [OF False] obtain t' where
    p: "Store_Unmarshal (memory_store m) (cacheKey [T_locale locale0, key]) zero_Translation = (None, t')"
    and v: "Value t' = cached_value m (T_locale locale0) key" by blast
  show ?thesis
    using p v False l cs by (simp add: T_resolve_def T_locale_def Let_def)
next
  case True
  have z: "Value zero_Translation = []" by (simp add: zero_Translation_def)
  from probe_miss [OF True z] obtain err t' where
    p: "Store_Unmarshal (memory_store m) (cacheKey [T_locale locale0, key]) zero_Translation = (err, t')"
    and v: "Value t' = []" by blast
  from f True have f': "find (\<lambda>l. cached_value m l key \<noteq> []) (tl (T_probes i18n locale0)) = Some l"
    by (simp add: T_probes_def)
  have fb: "Value (T_fallbacks (memory_store m) key (tl (T_probes i18n locale0)) t') = cached_value m l key"
    using T_fallbacks_memory [OF v, of m key "tl (T_probes i18n locale0)"] f' by simp
  have ne: "cached_value m l key \<noteq> []"
    using f by (auto simp: find_Some_iff)
  have "T_resolve i18n locale0 key
        = (T_locale locale0, T_fallbacks (memory_store m) key (tl (T_probes i18n locale0)) t', i18n)"
    unfolding T_resolve_def Let_def
    using p v fb ne cs T_fallbacks_list [of i18n locale0]
    by (simp add: T_locale_def)
  then show ?thesis using fb by simp
qed

lemma T_resolve_memory_miss:
  assumes cs: "cacheStore i18n = memory_store m"
    and f: "find (\<lambda>l. cached_value m l key \<noteq> []) (T_probes i18n locale0) = None"
  shows "T_resolve i18n locale0 key =
           (T_locale locale0, T_placeholder i18n locale0 key,
            snd (SaveTranslation i18n (T_placeholder i18n locale0 key)))"
proof -
  have True: "cached_value m (T_locale locale0) key = []"
    using f by (simp add: T_probes_def split: if_splits)
  have z: "Value zero_Translation = []" by (simp add: zero_Translation_def)
  from probe_miss [OF True z] obtain err t' where
    p: "Store_Unmarshal (memory_store m) (cacheKey [T_locale locale0, key]) zero_Translation = (err, t')"
    and v: "Value t' = []" by blast
  from f True have f': "find (\<lambda>l. cached_value m l key \<noteq> []) (tl (T_probes i18n locale0)) = None"
    by (simp add: T_probes_def)
  define t1 where "t1 = T_fallbacks (memory_store m) key (tl (T_probes i18n locale0)) t'"
  have fb: "Value t1 = []"
    unfolding t1_def using T_fallbacks_memory [OF v, of m key "tl (T_probes i18n locale0)"] f' by simp
  have d: "cached_value m Default key = []"
  proof -
    have "Default \<in> set (T_probes i18n locale0)" by (simp add: T_probes_def)
    with f show ?thesis unfolding find_None_iff by blast
  qed
  from probe_miss [OF d fb] obtain err2 t2 where
    p2: "Store_Unmarshal (memory_store m) (cacheKey [Default, key]) t1 = (err2, t2)"
    and v2: "Value t2 = []" by blast
  show ?thesis
    unfolding T_resolve_def Let_def
    using p v fb p2 v2 cs T_fallbacks_list [of i18n locale0] T_placeholder_eq [of i18n key locale0]
    by (simp add: T_locale_def t1_def)
qed

lemma T_memory_hit:
  assumes "cacheStore i18n = memory_store m"
    and "find (\<lambda>l. cached_value m l key \<noteq> []) (T_probes i18n locale0) = Some l"
  shows "T Parse i18n locale0 key args = (T_format Parse (T_locale locale0) (cached_value m l key) args, i18n)"
proof -
  from T_resolve_memory_hit [OF assms] obtain t where
    r: "T_resolve i18n locale0 key = (T_locale locale0, t, i18n)" and v: "Value t = cached_value m l key"
    by blast
  have ne: "cached_value m l key \<noteq> []" using assms(2) by (auto simp: find_Some_iff)
  show ?thesis using r v ne by (simp add: T_def T_format_def Let_def split: sum.splits)
qed

lemma T_memory_miss:
  assumes "cacheStore i18n = memory_store m"
    and "find (\<lambda>l. cached_value m l key \<noteq> []) (T_probes i18n locale0) = None"
  shows "T Parse i18n locale0 key args =
           (T_format Parse (T_locale locale0) (if value_text i18n \<noteq> [] then value_text i18n else key) args,
            snd (SaveTranslation i18n (T_placeholder i18n locale0 key)))"
  using T_resolve_memory_miss [OF assms]
  by (simp add: T_def T_format_def Let_def T_placeholder_def split: sum.splits)

section \<open>Deleting a record\<close>

lemma DeleteTranslation_loop_map:
  "DeleteTranslation_loop t bs = map (\<lambda>b. snd (Backend_Delete b t)) bs"
  by (induction bs) (simp_all split: prod.splits)

lemma cached_value_deleted:
  "cached_value (m(cacheKey [l, k] := None)) l k = []"
  by (simp add: cached_value_def)

text \<open>
  Claim C5. \<open>DeleteTranslation\<close> calls the delete method of every backend of the chain,
  whatever the earlier ones answered: each backend ends in the state its own delete
  leaves it in. It then deletes the entry of the record's locale and key from the cache
  store, and what it returns is what the cache store's delete returned; the errors of
  the backends are dropped. This holds for every cache store (engine \<open>i18n\<close>). With the
  in-memory store (engine \<open>e\<close>) the call returns no error, the entry under the
  record's cache key is gone afterwards, every other entry is as before, and a probe
  for the record's locale and key yields nothing.
\<close>

theorem DeleteTranslation_all_backends_then_cache:
  "fst (DeleteTranslation i18n t) = fst (Store_Delete (cacheStore i18n) (cacheKey [Locale t, Key t]))
   \<and> snd (DeleteTranslation i18n t) =
       i18n\<lparr>Backends := map (\<lambda>b. snd (Backend_Delete b t)) (Backends i18n),
             cacheStore := snd (Store_Delete (cacheStore i18n) (cacheKey [Locale t, Key t]))\<rparr>
   \<and> (cacheStore e = memory_store m \<longrightarrow>
        DeleteTranslation e t =
          (None, e\<lparr>Backends := map (\<lambda>b. snd (Backend_Delete b t)) (Backends e),
                    cacheStore := memory_store (m(cacheKey [Locale t, Key t] := None))\<rparr>)
        \<and> cs_state (cacheStore (snd (DeleteTranslation e t))) (cacheKey [Locale t, Key t]) = None
        \<and> (\<forall>k. k \<noteq> cacheKey [Locale t, Key t] \<longrightarrow>
              cs_state (cacheStore (snd (DeleteTranslation e t))) k = m k)
        \<and> cached_value (cs_state (cacheStore (snd (DeleteTranslation e t)))) (Locale t) (Key t) = [])"
proof (intro conjI impI)
  have r: "DeleteTranslation i t =
      (fst (Store_Delete (cacheStore i) (cacheKey [Locale t, Key t])),
       i\<lparr>Backends := map (\<lambda>b. snd (Backend_Delete b t)) (Backends i),
         cacheStore := snd (Store_Delete (cacheStore i) (cacheKey [Locale t, Key t]))\<rparr>)"
    for i :: "('x, 'y) I18n"
    by (cases "Store_Delete (cacheStore i) (cacheKey [Locale t, Key t])")
      (simp add: DeleteTranslation_def Let_def DeleteTranslation_loop_map)
  show "fst (DeleteTranslation i18n t) = fst (Store_Delete (cacheStore i18n) (cacheKey [Locale t, Key t]))"
    by (simp add: r)
  show "snd (DeleteTranslation i18n t) =
       i18n\<lparr>Backends := map (\<lambda>b. snd (Backend_Delete b t)) (Backends i18n),
             cacheStore := snd (Store_Delete (cacheStore i18n) (cacheKey [Locale t, Key t]))\<rparr>"
    by (simp add: r)
  assume cs: "cacheStore e = memory_store m"
  show d: "DeleteTranslation e t =
          (None, e\<lparr>Backends := map (\<lambda>b. snd (Backend_Delete b t)) (Backends e),
                    cacheStore := memory_store (m(cacheKey [Locale t, Key t] := None))\<rparr>)"
    by (simp add: r cs Store_Delete_memory)
  show "cs_state (cacheStore (snd (DeleteTranslation e t))) (cacheKey [Locale t, Key t]) = None"
    by (simp add: d memory_store_def)
  show "\<forall>k. k \<noteq> cacheKey [Locale t, Key t] \<longrightarrow>
              cs_state (cacheStore (snd (DeleteTranslation e t))) k = m k"
    by (simp add: d memory_store_def)
  show "cached_value (cs_state (cacheStore (snd (DeleteTranslation e t)))) (Locale t) (Key t) = []"
    by (simp add: d memory_store_def cached_value_deleted)
qed

text \<open>
  A cache with entries for \<open>en/hello\<close> and \<open>de/hello\<close> and two backends, the second of
  which holds no such record and fails to delete: after deleting \<open>en/hello\<close> that entry
  is gone and the other one is still there, no error comes back, and both backends have
  been called once. With a store out of reach the store's error comes back.
\<close>

theorem DeleteTranslation_all_backends_then_cache_witness:
  "cs_state (cacheStore
       (sample_engine (memory_store [''en/hello'' \<mapsto> snapshot (tr ''en'' ''hello'' ''Hello''),
                                     ''de/hello'' \<mapsto> snapshot (tr ''de'' ''hello'' ''Hallo'')])
          [list_backend 0 True [tr ''en'' ''hello'' ''Hello'', tr ''de'' ''hello'' ''Hallo''], list_backend 1 True []]))
     ''en/hello'' = Some (snapshot (tr ''en'' ''hello'' ''Hello''))
   \<and> cs_state (cacheStore (snd (DeleteTranslation
       (sample_engine (memory_store [''en/hello'' \<mapsto> snapshot (tr ''en'' ''hello'' ''Hello''),
                                     ''de/hello'' \<mapsto> snapshot (tr ''de'' ''hello'' ''Hallo'')])
          [list_backend 0 True [tr ''en'' ''hello'' ''Hello'', tr ''de'' ''hello'' ''Hallo''], list_backend 1 True []])
       (tr ''en'' ''hello'' [])))) ''en/hello'' = None
   \<and> cs_state (cacheStore (snd (DeleteTranslation
       (sample_engine (memory_store [''en/hello'' \<mapsto> snapshot (tr ''en'' ''hello'' ''Hello''),
                                     ''de/hello'' \<mapsto> snapshot (tr ''de'' ''hello'' ''Hallo'')])
          [list_backend 0 True [tr ''en'' ''hello'' ''Hello'', tr ''de'' ''hello'' ''Hallo''], list_backend 1 True []])
       (tr ''en'' ''hello'' [])))) ''de/hello'' = Some (snapshot (tr ''de'' ''hello'' ''Hallo''))
   \<and> fst (DeleteTranslation
       (sample_engine (memory_store [''en/hello'' \<mapsto> snapshot (tr ''en'' ''hello'' ''Hello''),
                                     ''de/hello'' \<mapsto> snapshot (tr ''de'' ''hello'' ''Hallo'')])
          [list_backend 0 True [tr ''en'' ''hello'' ''Hello'', tr ''de'' ''hello'' ''Hallo''], list_backend 1 True []])
       (tr ''en'' ''hello'' [])) = None
   \<and> fst (Backend_Delete (list_backend 1 True []) (tr ''en'' ''hello'' [])) = Some (Error ''no such record'')
   \<and> map b_state (Backends (snd (DeleteTranslation
       (sample_engine (memory_store [''en/hello'' \<mapsto> snapshot (tr ''en'' ''hello'' ''Hello''),
                                     ''de/hello'' \<mapsto> snapshot (tr ''de'' ''hello'' ''Hallo'')])
          [list_backend 0 True [tr ''en'' ''hello'' ''Hello'', tr ''de'' ''hello'' ''Hallo''], list_backend 1 True []])
       (tr ''en'' ''hello'' []))))
       = [\<lparr>held = [tr ''de'' ''hello'' ''Hallo''], calls = 1\<rparr>, \<lparr>held = [], calls = 1\<rparr>]
   \<and> fst (DeleteTranslation
          (sample_engine unreachable_store
             [list_backend 0 True [tr ''en'' ''hello'' ''Hello''], list_backend 1 True []])
          (tr ''en'' ''hello'' [])) = Some (Error ''connection refused'')"
proof -
  let ?m = "[''en/hello'' \<mapsto> snapshot (tr ''en'' ''hello'' ''Hello''),
             ''de/hello'' \<mapsto> snapshot (tr ''de'' ''hello'' ''Hallo'')]"
  let ?bs = "[list_backend 0 True [tr ''en'' ''hello'' ''Hello'', tr ''de'' ''hello'' ''Hallo''], list_backend 1 True []]"
  have cs: "cacheStore (sample_engine (memory_store ?m) ?bs) = memory_store ?m"
    by (simp add: sample_engine_def)
  have k: "cacheKey [Locale (tr ''en'' ''hello'' []), Key (tr ''en'' ''hello'' [])] = ''en/hello''"
    by (simp add: cacheKey_def tr_def)
  have bs: "map b_state (map (\<lambda>b. snd (Backend_Delete b (tr ''en'' ''hello'' []))) ?bs)
      = [\<lparr>held = [tr ''de'' ''hello'' ''Hallo''], calls = 1\<rparr>, \<lparr>held = [], calls = 1\<rparr>]"
    by (simp add: Backend_Delete_def list_backend_def same_entry_def tr_def)
  have b1: "fst (Backend_Delete (list_backend 1 True []) (tr ''en'' ''hello'' [])) = Some (Error ''no such record'')"
    by (simp add: Backend_Delete_def list_backend_def)
  have u: "fst (Store_Delete unreachable_store ''en/hello'') = Some (Error ''connection refused'')"
    by (simp add: Store_Delete_def unreachable_store_def)
  have cu: "cacheStore (sample_engine unreachable_store
             [list_backend 0 True [tr ''en'' ''hello'' ''Hello''], list_backend 1 True []]) = unreachable_store"
    by (simp add: sample_engine_def)
  show ?thesis
    using DeleteTranslation_all_backends_then_cache
        [of "sample_engine unreachable_store
             [list_backend 0 True [tr ''en'' ''hello'' ''Hello''], list_backend 1 True []]"
            "tr ''en'' ''hello'' []" "sample_engine (memory_store ?m) ?bs" ?m]
      cs k bs b1 u cu
    by (simp add: sample_engine_def memory_store_def)
qed

section \<open>The composite cache key\<close>

text \<open>
  Claim C8. \<open>cacheKey\<close> joins locale and key with \<open>/\<close> and escapes nothing, so it is
  not injective on pairs: the pairs \<open>("en", "US/greeting")\<close> and
  \<open>("en/US", "greeting")\<close> differ and have the same cache key. A record added for the
  second pair replaces the entry of the first one: the lookup for the first pair then
  returns the second pair's value.
\<close>

theorem cacheKey_not_injective:
  "cacheKey [a, b @ ''/'' @ c] = cacheKey [a @ ''/'' @ b, c]
   \<and> (''en'', ''US/greeting'') \<noteq> (''en/US'', ''greeting'')
   \<and> cacheKey [''en'', ''US/greeting''] = cacheKey [''en/US'', ''greeting'']
   \<and> fst (T Parse_plain
            (snd (AddTranslation (New ([] :: bstate Backend list)) (tr ''en'' ''US/greeting'' ''Hello'')))
            ''en'' ''US/greeting'' []) = ''Hello''
   \<and> fst (T Parse_plain
            (snd (AddTranslation
               (snd (AddTranslation (New ([] :: bstate Backend list)) (tr ''en'' ''US/greeting'' ''Hello'')))
               (tr ''en/US'' ''greeting'' ''Howdy'')))
            ''en'' ''US/greeting'' []) = ''Howdy''"
  by (simp add: cacheKey_def New_def loadToCacheStore_def AddTranslation_def Store_Set_def
      memory_New_def memory_store_def memory_Set_def tr_def snapshot_def T_def T_resolve_def
      Store_Unmarshal_def memory_Unmarshal_def zero_Translation_def Parse_plain_def Let_def)

section \<open>Saving a record\<close>

lemma SaveTranslation_loop_all_fail:
  "\<forall>x \<in> set rest. fst (Backend_Save x t) \<noteq> None \<Longrightarrow>
   SaveTranslation_loop i18n t tried rest =
     (Some (Error ''failed to save translation''),
      i18n\<lparr>Backends := tried @ map (\<lambda>x. snd (Backend_Save x t)) rest\<rparr>)"
proof (induction rest arbitrary: tried)
  case Nil
  then show ?case by simp
next
  case (Cons b rest)
  obtain err b' where s: "Backend_Save b t = (err, b')" by (cases "Backend_Save b t")
  with Cons.prems obtain e where e: "err = Some e" by auto
  from Cons.prems have "\<forall>x \<in> set rest. fst (Backend_Save x t) \<noteq> None" by simp
  from Cons.IH [OF this, of "tried @ [b']"] s e show ?case by simp
qed

lemma SaveTranslation_loop_first_success:
  "\<forall>x \<in> set pre. fst (Backend_Save x t) \<noteq> None \<Longrightarrow> fst (Backend_Save b t) = None \<Longrightarrow>
   SaveTranslation_loop i18n t tried (pre @ b # post) =
     (None, snd (AddTranslation
        (i18n\<lparr>Backends := tried @ map (\<lambda>x. snd (Backend_Save x t)) pre @ snd (Backend_Save b t) # post\<rparr>) t))"
proof (induction pre arbitrary: tried)
  case Nil
  obtain err b' where s: "Backend_Save b t = (err, b')" by (cases "Backend_Save b t")
  with Nil.prems have "err = None" by simp
  with s show ?case by simp
next
  case (Cons p pre)
  obtain err p' where s: "Backend_Save p t = (err, p')" by (cases "Backend_Save p t")
  with Cons.prems obtain e where e: "err = Some e" by auto
  from Cons.prems have "\<forall>x \<in> set pre. fst (Backend_Save x t) \<noteq> None" by simp
  from Cons.IH [OF this Cons.prems(2), of "tried @ [p']"] s e show ?case by simp
qed

lemma AddTranslation_fields:
  "snd (AddTranslation i18n t) =
     i18n\<lparr>cacheStore := snd (Store_Set (cacheStore i18n) (cacheKey [Locale t, Key t]) t)\<rparr>"
  by (simp add: AddTranslation_def split: prod.splits)

lemma SaveTranslation_no_backends:
  "Backends i18n = [] \<Longrightarrow> SaveTranslation i18n t = (Some (Error ''failed to save translation''), i18n)"
  by (simp add: SaveTranslation_def)

lemma T_resolve_no_backends:
  "Backends i18n = [] \<Longrightarrow> snd (snd (T_resolve i18n locale0 key)) = i18n"
  by (simp add: T_resolve_def Let_def SaveTranslation_no_backends split: prod.splits)

text \<open>
  Claim C4. \<open>SaveTranslation\<close> asks the backends in the order of the list. When the
  backends before \<open>b\<close> all refuse and \<open>b\<close> accepts, it returns no error, the backends
  up to \<open>b\<close> are in the state their own save left them in, the backends after \<open>b\<close>
  have not been asked, and the cache store is the one after \<open>Set\<close> of the record under
  its cache key. When every backend refuses, it returns the error
  \<open>failed to save translation\<close> and the cache store is the one from before the call.
\<close>

theorem SaveTranslation_first_success_else_error:
  "(Backends i18n = pre @ b # post \<and> (\<forall>x \<in> set pre. fst (Backend_Save x t) \<noteq> None)
      \<and> fst (Backend_Save b t) = None \<longrightarrow>
      SaveTranslation i18n t =
        (None,
         i18n\<lparr>Backends := map (\<lambda>x. snd (Backend_Save x t)) pre @ snd (Backend_Save b t) # post,
               cacheStore := snd (Store_Set (cacheStore i18n) (cacheKey [Locale t, Key t]) t)\<rparr>))
   \<and> ((\<forall>x \<in> set (Backends i18n). fst (Backend_Save x t) \<noteq> None) \<longrightarrow>
      SaveTranslation i18n t =
        (Some (Error ''failed to save translation''),
         i18n\<lparr>Backends := map (\<lambda>x. snd (Backend_Save x t)) (Backends i18n)\<rparr>)
      \<and> cacheStore (snd (SaveTranslation i18n t)) = cacheStore i18n)"
proof (intro conjI impI)
  assume a: "Backends i18n = pre @ b # post \<and> (\<forall>x \<in> set pre. fst (Backend_Save x t) \<noteq> None)
      \<and> fst (Backend_Save b t) = None"
  then show "SaveTranslation i18n t =
        (None,
         i18n\<lparr>Backends := map (\<lambda>x. snd (Backend_Save x t)) pre @ snd (Backend_Save b t) # post,
               cacheStore := snd (Store_Set (cacheStore i18n) (cacheKey [Locale t, Key t]) t)\<rparr>)"
    using SaveTranslation_loop_first_success [of pre t b i18n "[]" post]
    by (simp add: SaveTranslation_def AddTranslation_fields)
next
  assume a: "\<forall>x \<in> set (Backends i18n). fst (Backend_Save x t) \<noteq> None"
  show "SaveTranslation i18n t =
        (Some (Error ''failed to save translation''),
         i18n\<lparr>Backends := map (\<lambda>x. snd (Backend_Save x t)) (Backends i18n)\<rparr>)"
    using SaveTranslation_loop_all_fail [OF a, of i18n "[]"] by (simp add: SaveTranslation_def)
  then show "cacheStore (snd (SaveTranslation i18n t)) = cacheStore i18n" by simp
qed

text \<open>
  A chain of one backend that refuses and two that accept: the second stores the record,
  the third is not called, the cache has the entry. A chain of two that refuse: the
  error comes back and the cache stays empty.
\<close>

theorem SaveTranslation_first_success_else_error_witness:
  "fst (SaveTranslation
          (sample_engine memory_New [list_backend 0 False [], list_backend 1 True [], list_backend 2 True []])
          (tr ''en'' ''hello'' ''Hello'')) = None
   \<and> map b_state (Backends (snd (SaveTranslation
          (sample_engine memory_New [list_backend 0 False [], list_backend 1 True [], list_backend 2 True []])
          (tr ''en'' ''hello'' ''Hello''))))
       = [\<lparr>held = [], calls = 1\<rparr>, \<lparr>held = [tr ''en'' ''hello'' ''Hello''], calls = 1\<rparr>, \<lparr>held = [], calls = 0\<rparr>]
   \<and> cs_state (cacheStore (snd (SaveTranslation
          (sample_engine memory_New [list_backend 0 False [], list_backend 1 True [], list_backend 2 True []])
          (tr ''en'' ''hello'' ''Hello'')))) ''en/hello''
       = Some \<lparr>s_Key = ''hello'', s_Locale = ''en'', s_Value = ''Hello''\<rparr>
   \<and> fst (SaveTranslation
          (sample_engine memory_New [list_backend 0 False [], list_backend 1 False []])
          (tr ''en'' ''hello'' ''Hello'')) = Some (Error ''failed to save translation'')
   \<and> map b_state (Backends (snd (SaveTranslation
          (sample_engine memory_New [list_backend 0 False [], list_backend 1 False []])
          (tr ''en'' ''hello'' ''Hello''))))
       = [\<lparr>held = [], calls = 1\<rparr>, \<lparr>held = [], calls = 1\<rparr>]
   \<and> cs_state (cacheStore (snd (SaveTranslation
          (sample_engine memory_New [list_backend 0 False [], list_backend 1 False []])
          (tr ''en'' ''hello'' ''Hello'')))) = Map.empty"
  using SaveTranslation_first_success_else_error
    [of "sample_engine memory_New [list_backend 0 False [], list_backend 1 True [], list_backend 2 True []]"
        "[list_backend 0 False []]" "list_backend 1 True []" "[list_backend 2 True []]"
        "tr ''en'' ''hello'' ''Hello''"]
    SaveTranslation_first_success_else_error
    [of "sample_engine memory_New [list_backend 0 False [], list_backend 1 False []]"
        "[]" "list_backend 0 False []" "[list_backend 1 False []]"
        "tr ''en'' ''hello'' ''Hello''"]
  by (simp add: sample_engine_def list_backend_def tr_def Backend_Save_def same_entry_def
      Store_Set_def cacheKey_def memory_New_def memory_store_def memory_Set_def snapshot_def)

section \<open>An engine without backends\<close>

text \<open>
  Claim C10, as stated, fails in its last part: with no backends and no translation,
  the lookup of the key \<open>{{/* note */}}\<close> with a formatter that renders this template
  to the empty text returns the empty text, not the raw key.
\<close>

theorem no_backends_result_not_key_counterexample:
  "Backends (New ([] :: bstate Backend list)) = []
   \<and> fst (T Parse_comment (New ([] :: bstate Backend list)) ''en'' ''{{/* note */}}'' []) = []
   \<and> fst (T Parse_comment (New ([] :: bstate Backend list)) ''en'' ''{{/* note */}}'' []) \<noteq> ''{{/* note */}}''"
proof -
  have n: "New ([] :: bstate Backend list) =
      \<lparr>scope = [], value_text = [], Backends = [], FallbackLocales = Map.empty,
       fallbackLocales = [], cacheStore = memory_store Map.empty\<rparr>"
    by (simp add: New_def loadToCacheStore_def memory_New_def)
  have cs: "cacheStore (New ([] :: bstate Backend list)) = memory_store Map.empty"
    by (simp add: n)
  have f: "find (\<lambda>l. cached_value Map.empty l ''{{/* note */}}'' \<noteq> [])
             (T_probes (New ([] :: bstate Backend list)) ''en'') = None"
    by (simp add: n T_probes_def cached_value_def)
  have "fst (T Parse_comment (New ([] :: bstate Backend list)) ''en'' ''{{/* note */}}'' []) = []"
    using T_memory_miss [OF cs f, of Parse_comment "[]"]
    by (simp add: n T_format_def Parse_comment_def)
  then show ?thesis by (simp add: n)
qed

text \<open>
  Claim C10, amended. With an empty list of backends \<open>SaveTranslation\<close> returns an
  error and leaves the engine, its cache store included, as it was; a call of \<open>T\<close>
  changes nothing either: no backend is written and the cache is not touched. When no
  probe yields a value and the engine has no default text, the value handed to the
  formatter is the raw key; the result is the formatter's rendering of the raw key, and
  the raw key itself when the formatter fails or returns the key unchanged.
\<close>

theorem no_backends_nothing_persisted:
  "Backends i18n = [] \<longrightarrow>
     SaveTranslation i18n t = (Some (Error ''failed to save translation''), i18n)
     \<and> snd (T Parse i18n locale0 key args) = i18n
     \<and> (cacheStore i18n = memory_store m
          \<and> find (\<lambda>l. cached_value m l key \<noteq> []) (T_probes i18n locale0) = None
          \<and> value_text i18n = [] \<longrightarrow>
        T_value i18n locale0 key = key
        \<and> fst (T Parse i18n locale0 key args) = T_format Parse (T_locale locale0) key args
        \<and> (\<forall>err. Parse (T_locale locale0) key args = Inl err \<longrightarrow> fst (T Parse i18n locale0 key args) = key)
        \<and> (Parse (T_locale locale0) key args = Inr key \<longrightarrow> fst (T Parse i18n locale0 key args) = key))"
proof (intro impI conjI allI)
  assume b: "Backends i18n = []"
  show "SaveTranslation i18n t = (Some (Error ''failed to save translation''), i18n)"
    using b by (rule SaveTranslation_no_backends)
  show "snd (T Parse i18n locale0 key args) = i18n"
    using T_resolve_no_backends [OF b, of locale0 key]
    by (auto simp: T_def Let_def split: prod.splits)
  assume a: "cacheStore i18n = memory_store m
          \<and> find (\<lambda>l. cached_value m l key \<noteq> []) (T_probes i18n locale0) = None
          \<and> value_text i18n = []"
  then have cs: "cacheStore i18n = memory_store m"
    and miss: "find (\<lambda>l. cached_value m l key \<noteq> []) (T_probes i18n locale0) = None"
    and v: "value_text i18n = []"
    by simp_all
  show "T_value i18n locale0 key = key"
    using T_resolve_memory_miss [OF cs miss] v by (simp add: T_value_def T_placeholder_def)
  show r: "fst (T Parse i18n locale0 key args) = T_format Parse (T_locale locale0) key args"
    using T_memory_miss [OF cs miss, of Parse args] v by simp
  show "fst (T Parse i18n locale0 key args) = key"
    if "Parse (T_locale locale0) key args = Inl err" for err
    using that by (simp add: r T_format_def)
  show "fst (T Parse i18n locale0 key args) = key"
    if "Parse (T_locale locale0) key args = Inr key"
    using that by (simp add: r T_format_def)
qed

text \<open>
  The engine \<open>New()\<close>: the lookup of an unknown key returns the key, with a formatter
  that returns its text and with one that fails, and stores nothing.
\<close>

theorem no_backends_nothing_persisted_witness:
  "SaveTranslation (New ([] :: bstate Backend list)) (tr ''de'' ''hello'' ''Hallo'')
     = (Some (Error ''failed to save translation''), New [])
   \<and> T Parse_plain (New ([] :: bstate Backend list)) ''de'' ''hello'' [] = (''hello'', New [])
   \<and> T Parse_fails (New ([] :: bstate Backend list)) ''de'' ''hello'' [] = (''hello'', New [])
   \<and> cs_state (cacheStore (snd (T Parse_plain (New ([] :: bstate Backend list)) ''de'' ''hello'' []))) = Map.empty"
proof -
  have n: "New ([] :: bstate Backend list) =
      \<lparr>scope = [], value_text = [], Backends = [], FallbackLocales = Map.empty,
       fallbackLocales = [], cacheStore = memory_store Map.empty\<rparr>"
    by (simp add: New_def loadToCacheStore_def memory_New_def)
  have f: "find (\<lambda>l. cached_value Map.empty l ''hello'' \<noteq> [])
             (T_probes (New ([] :: bstate Backend list)) ''de'') = None"
    by (simp add: n T_probes_def cached_value_def)
  show ?thesis
    using no_backends_nothing_persisted
      [of "New ([] :: bstate Backend list)" "tr ''de'' ''hello'' ''Hallo''" Parse_plain "''de''" "''hello''" "[]" Map.empty]
      no_backends_nothing_persisted
      [of "New ([] :: bstate Backend list)" "tr ''de'' ''hello'' ''Hallo''" Parse_fails "''de''" "''hello''" "[]" Map.empty]
      f
    by (simp add: n T_format_def Parse_plain_def Parse_fails_def T_locale_def memory_store_def prod_eq_iff)
qed

section \<open>The order of the probes\<close>

lemma T_resolve_locale: "fst (T_resolve i18n locale0 key) = T_locale locale0"
  by (simp add: T_resolve_def T_locale_def Let_def split: prod.splits)

text \<open>
  Claim C2. With the in-memory store, \<open>T\<close> resolves to the first locale, in the order
  requested locale, fallback locales in declared order, default locale, whose cache
  entry for the key has a value that is not empty; it returns that value as the
  formatter renders it and changes nothing. So when the requested locale has the
  fallback chain \<open>[L2, L3]\<close> and neither it nor \<open>L2\<close> has a value for the key while
  \<open>L3\<close> has one, the result is the value of \<open>L3\<close>, whatever the default locale holds.
  An empty requested locale stands for the default locale (lines 125 to 127).
\<close>

theorem T_first_usable_probe_wins:
  "cacheStore i18n = memory_store m \<longrightarrow>
     (find (\<lambda>l. cached_value m l key \<noteq> []) (T_probes i18n locale0) = Some l \<longrightarrow>
        T Parse i18n locale0 key args =
          (T_format Parse (T_locale locale0) (cached_value m l key) args, i18n))
     \<and> (locale0 \<noteq> [] \<and> fallbackLocales i18n = [] \<and> FallbackLocales i18n locale0 = Some [L2, L3]
          \<and> cached_value m locale0 key = [] \<and> cached_value m L2 key = []
          \<and> cached_value m L3 key \<noteq> [] \<longrightarrow>
        fst (T Parse i18n locale0 key args) = T_format Parse locale0 (cached_value m L3 key) args)"
proof (intro impI conjI)
  assume cs: "cacheStore i18n = memory_store m"
  {
    assume "find (\<lambda>l. cached_value m l key \<noteq> []) (T_probes i18n locale0) = Some l"
    with cs show "T Parse i18n locale0 key args =
          (T_format Parse (T_locale locale0) (cached_value m l key) args, i18n)"
      by (rule T_memory_hit)
  }
  assume a: "locale0 \<noteq> [] \<and> fallbackLocales i18n = [] \<and> FallbackLocales i18n locale0 = Some [L2, L3]
          \<and> cached_value m locale0 key = [] \<and> cached_value m L2 key = []
          \<and> cached_value m L3 key \<noteq> []"
  then have "find (\<lambda>l. cached_value m l key \<noteq> []) (T_probes i18n locale0) = Some L3"
    by (simp add: T_probes_def T_locale_def)
  from T_memory_hit [OF cs this, of Parse args] a
  show "fst (T Parse i18n locale0 key args) = T_format Parse locale0 (cached_value m L3 key) args"
    by (simp add: T_locale_def)
qed

text \<open>
  The locale \<open>de-AT\<close> falls back to \<open>de-CH\<close>, then \<open>de\<close>; the cache has the key
  for \<open>de\<close> and for the default locale: the lookup returns the value of \<open>de\<close>.
\<close>

theorem T_first_usable_probe_wins_witness:
  "T Parse_plain
     ((sample_engine
         (memory_store [''de/hello'' \<mapsto> snapshot (tr ''de'' ''hello'' ''Hallo''),
                        ''en-US/hello'' \<mapsto> snapshot (tr ''en-US'' ''hello'' ''Hello'')])
         [list_backend 0 True []])
        \<lparr>FallbackLocales := [''de-AT'' \<mapsto> [''de-CH'', ''de'']]\<rparr>)
     ''de-AT'' ''hello'' []
   = (''Hallo'',
      (sample_engine
         (memory_store [''de/hello'' \<mapsto> snapshot (tr ''de'' ''hello'' ''Hallo''),
                        ''en-US/hello'' \<mapsto> snapshot (tr ''en-US'' ''hello'' ''Hello'')])
         [list_backend 0 True []])
        \<lparr>FallbackLocales := [''de-AT'' \<mapsto> [''de-CH'', ''de'']]\<rparr>)"
  using T_first_usable_probe_wins
    [of "(sample_engine
         (memory_store [''de/hello'' \<mapsto> snapshot (tr ''de'' ''hello'' ''Hallo''),
                        ''en-US/hello'' \<mapsto> snapshot (tr ''en-US'' ''hello'' ''Hello'')])
         [list_backend 0 True []])
        \<lparr>FallbackLocales := [''de-AT'' \<mapsto> [''de-CH'', ''de'']]\<rparr>"
        "[''de/hello'' \<mapsto> snapshot (tr ''de'' ''hello'' ''Hallo''),
                        ''en-US/hello'' \<mapsto> snapshot (tr ''en-US'' ''hello'' ''Hello'')]"
        "''hello''" "''de-AT''" "''de''" Parse_plain "[]" "''de-CH''" "''de''"]
  by (simp add: sample_engine_def T_probes_def T_locale_def cached_value_def cacheKey_def Default_def
      snapshot_def tr_def T_format_def Parse_plain_def prod_eq_iff)

section \<open>The result of a lookup\<close>

text \<open>
  Claim C7, as stated, fails: for the empty key and no translation, \<open>T\<close> returns the
  empty string, with a formatter that returns its text and with one that fails.
\<close>

theorem T_empty_key_counterexample:
  "fst (T Parse_plain (New [list_backend 0 True []]) ''en'' [] []) = []
   \<and> fst (T Parse_fails (New [list_backend 0 True []]) ''en'' [] []) = []"
  by (simp add: New_def loadToCacheStore_def list_backend_def Backend_Load_def memory_New_def
      T_def T_resolve_def Let_def Store_Unmarshal_memory zero_Translation_def cacheKey_def Default_def
      SaveTranslation_def Backend_Save_def AddTranslation_def Store_Set_memory
      Parse_plain_def Parse_fails_def same_entry_def snapshot_def)

text \<open>
  Claim C7, amended. \<open>T\<close> always returns: its result is the formatter's rendering of
  a value, or that value itself when the formatter fails. The value is the resolved
  record's value when that is not empty and the raw key otherwise, so it is not empty
  whenever the key is not empty.
\<close>

theorem T_value_nonempty_unless_key_empty:
  "fst (T Parse i18n locale0 key args) = T_format Parse (T_locale locale0) (T_value i18n locale0 key) args
   \<and> (Value (fst (snd (T_resolve i18n locale0 key))) \<noteq> [] \<longrightarrow>
        T_value i18n locale0 key = Value (fst (snd (T_resolve i18n locale0 key))))
   \<and> (Value (fst (snd (T_resolve i18n locale0 key))) = [] \<longrightarrow> T_value i18n locale0 key = key)
   \<and> (key \<noteq> [] \<longrightarrow> T_value i18n locale0 key \<noteq> [])
   \<and> (\<forall>err. Parse (T_locale locale0) (T_value i18n locale0 key) args = Inl err \<longrightarrow>
        fst (T Parse i18n locale0 key args) = T_value i18n locale0 key)"
  using T_resolve_locale [of i18n locale0 key]
  by (auto simp: T_def T_value_def T_format_def Let_def split: prod.splits sum.splits)

text \<open>
  A lookup of \<open>hello\<close> with nothing cached and a formatter that fails: the value is
  the key, and so is the result.
\<close>

theorem T_value_nonempty_unless_key_empty_witness:
  "''hello'' \<noteq> []
   \<and> T_value (sample_engine memory_New [list_backend 0 True []]) ''de'' ''hello'' = ''hello''
   \<and> fst (T Parse_fails (sample_engine memory_New [list_backend 0 True []]) ''de'' ''hello'' []) = ''hello''"
proof -
  let ?e = "sample_engine memory_New [list_backend 0 True []]"
  have cs: "cacheStore ?e = memory_store Map.empty"
    by (simp add: sample_engine_def memory_New_def)
  have f: "find (\<lambda>l. cached_value Map.empty l ''hello'' \<noteq> []) (T_probes ?e ''de'') = None"
    by (simp add: T_probes_def cached_value_def sample_engine_def)
  have v: "T_value ?e ''de'' ''hello'' = ''hello''"
    using T_resolve_memory_miss [OF cs f]
    by (simp add: T_value_def T_placeholder_def sample_engine_def)
  show ?thesis
    using T_value_nonempty_unless_key_empty [of Parse_fails ?e "''de''" "''hello''" "[]"] v
    by (simp add: Parse_fails_def T_format_def)
qed

section \<open>The scope\<close>

lemma T_resolve_unfold:
  "T_resolve i18n locale0 key =
     (case Store_Unmarshal (cacheStore i18n) (cacheKey [T_locale locale0, key]) zero_Translation of
        (err, translation) \<Rightarrow>
          if err \<noteq> None \<or> Value translation = [] then
            if Value (T_fallbacks (cacheStore i18n) key (tl (T_probes i18n locale0)) translation) = [] then
              (case Store_Unmarshal (cacheStore i18n) (cacheKey [Default, key])
                      (T_fallbacks (cacheStore i18n) key (tl (T_probes i18n locale0)) translation) of
                 (err2, translation2) \<Rightarrow>
                   if err2 \<noteq> None \<or> Value translation2 = [] then
                     (T_locale locale0, T_placeholder i18n locale0 key,
                      snd (SaveTranslation i18n (T_placeholder i18n locale0 key)))
                   else (T_locale locale0, translation2, i18n))
            else (T_locale locale0,
                  T_fallbacks (cacheStore i18n) key (tl (T_probes i18n locale0)) translation, i18n)
          else (T_locale locale0, translation, i18n))"
  by (simp only: T_resolve_def Let_def T_locale_def [symmetric] T_fallbacks_list T_placeholder_eq)


lemma T_probes_scope: "T_probes (i18n\<lparr>scope := sc\<rparr>) locale0 = T_probes i18n locale0"
  by (simp add: T_probes_def)

lemma T_resolve_scope:
  "Value (fst (snd (T_resolve (i18n\<lparr>scope := sc\<rparr>) locale0 key))) = Value (fst (snd (T_resolve i18n locale0 key)))
   \<and> fst (T_resolve (i18n\<lparr>scope := sc\<rparr>) locale0 key) = fst (T_resolve i18n locale0 key)"
  by (simp add: T_resolve_unfold T_probes_scope T_placeholder_def split: prod.splits)

text \<open>
  Claim C6. The scope has no part in the probes: the string that \<open>T\<close> returns is the
  same whatever the scope is, a hit is decided by the entries under the raw key for the
  requested locale, the fallback locales and the default locale, and only the record
  built when every probe misses carries the key \<open>scope + "." + key\<close>; without a scope
  that record carries the raw key.
\<close>

theorem T_scope_only_on_placeholder:
  "fst (T Parse (i18n\<lparr>scope := sc\<rparr>) locale0 key args) = fst (T Parse i18n locale0 key args)
   \<and> (cacheStore i18n = memory_store m \<longrightarrow>
        (find (\<lambda>l. cached_value m l key \<noteq> []) (T_probes i18n locale0) = Some l \<longrightarrow>
           T Parse i18n locale0 key args =
             (T_format Parse (T_locale locale0) (cached_value m l key) args, i18n))
        \<and> (find (\<lambda>l. cached_value m l key \<noteq> []) (T_probes i18n locale0) = None \<longrightarrow>
           snd (T Parse i18n locale0 key args) =
             snd (SaveTranslation i18n
                \<lparr>Key = (if scope i18n \<noteq> [] then scope i18n @ ''.'' @ key else key),
                 Locale = T_locale locale0, Value = value_text i18n,
                 Backend = (case Backends i18n of [] \<Rightarrow> None | backend # _ \<Rightarrow> Some (b_ref backend))\<rparr>)))"
proof (intro conjI impI)
  obtain a b c where r1: "T_resolve (i18n\<lparr>scope := sc\<rparr>) locale0 key = (a, b, c)"
    by (cases "T_resolve (i18n\<lparr>scope := sc\<rparr>) locale0 key")
  obtain a' b' c' where r2: "T_resolve i18n locale0 key = (a', b', c')"
    by (cases "T_resolve i18n locale0 key")
  from T_resolve_scope [of sc i18n locale0 key] r1 r2 have "Value b = Value b'" "a = a'" by simp_all
  then show "fst (T Parse (i18n\<lparr>scope := sc\<rparr>) locale0 key args) = fst (T Parse i18n locale0 key args)"
    by (simp add: T_def r1 r2 Let_def split: sum.splits)
next
  assume cs: "cacheStore i18n = memory_store m"
  {
    assume "find (\<lambda>l. cached_value m l key \<noteq> []) (T_probes i18n locale0) = Some l"
    with cs show "T Parse i18n locale0 key args =
             (T_format Parse (T_locale locale0) (cached_value m l key) args, i18n)"
      by (rule T_memory_hit)
  }
  assume "find (\<lambda>l. cached_value m l key \<noteq> []) (T_probes i18n locale0) = None"
  from T_memory_miss [OF cs this, of Parse args]
  show "snd (T Parse i18n locale0 key args) =
             snd (SaveTranslation i18n
                \<lparr>Key = (if scope i18n \<noteq> [] then scope i18n @ ''.'' @ key else key),
                 Locale = T_locale locale0, Value = value_text i18n,
                 Backend = (case Backends i18n of [] \<Rightarrow> None | backend # _ \<Rightarrow> Some (b_ref backend))\<rparr>)"
    by (simp add: T_placeholder_def)
qed

text \<open>
  With the scope \<open>admin\<close> and a cache that holds a value under the scoped key
  \<open>admin.title\<close> only, the lookup of \<open>title\<close> misses, returns \<open>title\<close> and saves a
  record with the key \<open>admin.title\<close>; with a value under the raw key \<open>title\<close> it
  returns that value and saves nothing.
\<close>

theorem T_scope_only_on_placeholder_witness:
  "fst (T Parse_plain (admin_engine [''en-US/admin.title'' \<mapsto> snapshot (tr ''en-US'' ''admin.title'' ''Title'')])
          ''en-US'' ''title'' []) = ''title''
   \<and> map (\<lambda>b. held (b_state b))
        (Backends (snd (T Parse_plain
           (admin_engine [''en-US/admin.title'' \<mapsto> snapshot (tr ''en-US'' ''admin.title'' ''Title'')])
           ''en-US'' ''title'' [])))
      = [[\<lparr>Key = ''admin.title'', Locale = ''en-US'', Value = [], Backend = Some 0\<rparr>]]
   \<and> T Parse_plain (admin_engine [''en-US/title'' \<mapsto> snapshot (tr ''en-US'' ''title'' ''Raw'')])
          ''en-US'' ''title'' []
      = (''Raw'', admin_engine [''en-US/title'' \<mapsto> snapshot (tr ''en-US'' ''title'' ''Raw'')])"
proof -
  let ?m = "[''en-US/admin.title'' \<mapsto> snapshot (tr ''en-US'' ''admin.title'' ''Title'')]"
  let ?m' = "[''en-US/title'' \<mapsto> snapshot (tr ''en-US'' ''title'' ''Raw'')]"
  have cs: "cacheStore (admin_engine ?m) = memory_store ?m" "cacheStore (admin_engine ?m') = memory_store ?m'"
    by (simp_all add: admin_engine_def sample_engine_def)
  have f: "find (\<lambda>l. cached_value ?m l ''title'' \<noteq> []) (T_probes (admin_engine ?m) ''en-US'') = None"
    by (simp add: T_probes_def T_locale_def Default_def cached_value_def cacheKey_def admin_engine_def sample_engine_def)
  have f': "find (\<lambda>l. cached_value ?m' l ''title'' \<noteq> []) (T_probes (admin_engine ?m') ''en-US'') = Some ''en-US''"
    by (simp add: T_probes_def T_locale_def Default_def cached_value_def cacheKey_def admin_engine_def
        sample_engine_def snapshot_def tr_def)
  have v: "cached_value ?m' ''en-US'' ''title'' = ''Raw''"
    by (simp add: cached_value_def cacheKey_def snapshot_def tr_def)
  have s: "map (\<lambda>b. held (b_state b)) (Backends (snd (SaveTranslation (admin_engine ?m)
              \<lparr>Key = ''admin.title'', Locale = ''en-US'', Value = [], Backend = Some 0\<rparr>)))
           = [[\<lparr>Key = ''admin.title'', Locale = ''en-US'', Value = [], Backend = Some 0\<rparr>]]"
    by (simp add: SaveTranslation_def Backend_Save_def admin_engine_def sample_engine_def list_backend_def
        AddTranslation_fields)
  have r: "b_ref (list_backend 0 True []) = 0"
    by (simp add: list_backend_def)
  have k: "fst (T Parse_plain (admin_engine ?m) ''en-US'' ''title'' []) = ''title''"
    using T_memory_miss [OF cs(1) f, of Parse_plain "[]"]
    by (simp add: T_format_def Parse_plain_def admin_engine_def sample_engine_def)
  show ?thesis
    using T_scope_only_on_placeholder [of Parse_plain "''admin''" "admin_engine ?m" "''en-US''" "''title''" "[]" ?m "''en-US''"]
      T_scope_only_on_placeholder [of Parse_plain "''admin''" "admin_engine ?m'" "''en-US''" "''title''" "[]" ?m' "''en-US''"]
      cs f f' v s k r
    by (simp add: T_format_def Parse_plain_def T_locale_def admin_engine_def sample_engine_def)
qed

section \<open>Lookups that miss\<close>

lemma b_ref_Backend_Save: "b_ref (snd (Backend_Save b t)) = b_ref b"
  by (simp add: Backend_Save_def split: prod.splits)

lemma SaveTranslation_shape:
  "\<exists>bs' cs'. snd (SaveTranslation i18n t) = i18n\<lparr>Backends := bs', cacheStore := cs'\<rparr>
      \<and> map b_ref bs' = map b_ref (Backends i18n)
      \<and> (cs' = cacheStore i18n \<or> cs' = snd (Store_Set (cacheStore i18n) (cacheKey [Locale t, Key t]) t))"
proof (cases "\<exists>x \<in> set (Backends i18n). fst (Backend_Save x t) = None")
  case True
  then obtain pre b post where
    d: "Backends i18n = pre @ b # post" and b: "fst (Backend_Save b t) = None"
    and pre: "\<forall>x \<in> set pre. fst (Backend_Save x t) \<noteq> None"
    by (auto dest!: split_list_first_prop)
  have "snd (SaveTranslation i18n t) =
      i18n\<lparr>Backends := map (\<lambda>x. snd (Backend_Save x t)) pre @ snd (Backend_Save b t) # post,
            cacheStore := snd (Store_Set (cacheStore i18n) (cacheKey [Locale t, Key t]) t)\<rparr>"
    using SaveTranslation_loop_first_success [OF pre b, of i18n "[]" post] d
    by (simp add: SaveTranslation_def AddTranslation_fields)
  moreover have "map b_ref (map (\<lambda>x. snd (Backend_Save x t)) pre @ snd (Backend_Save b t) # post)
      = map b_ref (Backends i18n)"
    by (simp add: d b_ref_Backend_Save)
  ultimately show ?thesis by blast
next
  case False
  then have a: "\<forall>x \<in> set (Backends i18n). fst (Backend_Save x t) \<noteq> None" by simp
  have "snd (SaveTranslation i18n t) =
      i18n\<lparr>Backends := map (\<lambda>x. snd (Backend_Save x t)) (Backends i18n), cacheStore := cacheStore i18n\<rparr>"
    using SaveTranslation_loop_all_fail [OF a, of i18n "[]"] by (simp add: SaveTranslation_def)
  moreover have "map b_ref (map (\<lambda>x. snd (Backend_Save x t)) (Backends i18n)) = map b_ref (Backends i18n)"
    by (simp add: b_ref_Backend_Save)
  ultimately show ?thesis by blast
qed

lemma T_placeholder_cong:
  "scope e' = scope e \<Longrightarrow> value_text e' = value_text e \<Longrightarrow> map b_ref (Backends e') = map b_ref (Backends e)
   \<Longrightarrow> T_placeholder e' locale0 key = T_placeholder e locale0 key"
  by (cases "Backends e'"; cases "Backends e") (simp_all add: T_placeholder_def)

lemma T_probes_cong:
  "fallbackLocales e' = fallbackLocales e \<Longrightarrow> FallbackLocales e' = FallbackLocales e
   \<Longrightarrow> T_probes e' locale0 = T_probes e locale0"
  by (simp add: T_probes_def)

lemma cached_value_put_empty:
  "Value t = [] \<Longrightarrow> cached_value m l key = [] \<Longrightarrow> cached_value (m(k \<mapsto> snapshot t)) l key = []"
  by (simp add: cached_value_def snapshot_def)

lemma miss_put_empty:
  "Value t = [] \<Longrightarrow> find (\<lambda>l. cached_value m l key \<noteq> []) ls = None
   \<Longrightarrow> find (\<lambda>l. cached_value (m(k \<mapsto> snapshot t)) l key \<noteq> []) ls = None"
  by (auto simp: find_None_iff cached_value_put_empty)

lemma T_miss_step:
  assumes cs: "cacheStore e = memory_store m"
    and miss: "find (\<lambda>l. cached_value m l key \<noteq> []) (T_probes e locale0) = None"
    and v: "value_text e = []"
  shows "\<exists>m'. cacheStore (snd (SaveTranslation e (T_placeholder e locale0 key))) = memory_store m'
      \<and> (m' = m \<or> m' = m(cacheKey [T_locale locale0, Key (T_placeholder e locale0 key)]
                            \<mapsto> snapshot (T_placeholder e locale0 key)))
      \<and> find (\<lambda>l. cached_value m' l key \<noteq> [])
           (T_probes (snd (SaveTranslation e (T_placeholder e locale0 key))) locale0) = None
      \<and> value_text (snd (SaveTranslation e (T_placeholder e locale0 key))) = []
      \<and> T_placeholder (snd (SaveTranslation e (T_placeholder e locale0 key))) locale0 key
          = T_placeholder e locale0 key"
proof -
  let ?p = "T_placeholder e locale0 key"
  have vp: "Value ?p = []" and lp: "Locale ?p = T_locale locale0"
    using v by (simp_all add: T_placeholder_def)
  from SaveTranslation_shape [of e ?p] obtain bs' cs' where
    s: "snd (SaveTranslation e ?p) = e\<lparr>Backends := bs', cacheStore := cs'\<rparr>"
    and r: "map b_ref bs' = map b_ref (Backends e)"
    and c: "cs' = cacheStore e \<or> cs' = snd (Store_Set (cacheStore e) (cacheKey [Locale ?p, Key ?p]) ?p)"
    by blast
  have pr: "T_probes (snd (SaveTranslation e ?p)) locale0 = T_probes e locale0"
    by (rule T_probes_cong) (simp_all add: s)
  have ph: "T_placeholder (snd (SaveTranslation e ?p)) locale0 key = ?p"
    by (rule T_placeholder_cong) (simp_all add: s r)
  from c show ?thesis
  proof
    assume "cs' = cacheStore e"
    then show ?thesis using s cs miss v pr ph by auto
  next
    assume "cs' = snd (Store_Set (cacheStore e) (cacheKey [Locale ?p, Key ?p]) ?p)"
    then have "cs' = memory_store (m(cacheKey [T_locale locale0, Key ?p] \<mapsto> snapshot ?p))"
      by (simp add: cs Store_Set_memory lp)
    then show ?thesis
      using s v pr ph miss_put_empty [OF vp miss] by auto
  qed
qed


lemma T_repeat_miss:
  assumes cs: "cacheStore i18n = memory_store m"
    and miss: "find (\<lambda>l. cached_value m l key \<noteq> []) (T_probes i18n locale0) = None"
    and v: "value_text i18n = []"
  shows "\<exists>m'. cacheStore (T_repeat Parse n i18n locale0 key args) = memory_store m'
      \<and> find (\<lambda>l. cached_value m' l key \<noteq> []) (T_probes (T_repeat Parse n i18n locale0 key args) locale0) = None
      \<and> value_text (T_repeat Parse n i18n locale0 key args) = []
      \<and> T_placeholder (T_repeat Parse n i18n locale0 key args) locale0 key = T_placeholder i18n locale0 key"
proof (induction n)
  case 0
  show ?case using cs miss v by auto
next
  case (Suc n)
  let ?e = "T_repeat Parse n i18n locale0 key args"
  from Suc.IH obtain m' where
    cs': "cacheStore ?e = memory_store m'"
    and miss': "find (\<lambda>l. cached_value m' l key \<noteq> []) (T_probes ?e locale0) = None"
    and v': "value_text ?e = []"
    and p': "T_placeholder ?e locale0 key = T_placeholder i18n locale0 key"
    by blast
  have step: "T_repeat Parse (Suc n) i18n locale0 key args = snd (SaveTranslation ?e (T_placeholder ?e locale0 key))"
    using T_memory_miss [OF cs' miss', of Parse args] by simp
  from T_miss_step [OF cs' miss' v'] show ?case
    unfolding step using p' by auto
qed

text \<open>
  Claim C9. Every call of \<open>T\<close> for which no probe yields a value builds the
  placeholder and calls \<open>SaveTranslation\<close> with it: the engine after the call is the
  engine after that save. The placeholder has an empty value (the engine has no default
  text), so saving it leaves every probe without a value, and the next call with the
  same locale and key does the same again: after any number \<open>n\<close> of such calls, call
  \<open>n + 1\<close> returns the key as the formatter renders it and ends in the engine that
  \<open>SaveTranslation\<close> of the same placeholder gives.
\<close>

theorem T_saves_on_every_miss:
  "cacheStore i18n = memory_store m
     \<and> find (\<lambda>l. cached_value m l key \<noteq> []) (T_probes i18n locale0) = None \<longrightarrow>
   snd (T Parse i18n locale0 key args) = snd (SaveTranslation i18n (T_placeholder i18n locale0 key))
   \<and> (value_text i18n = [] \<longrightarrow>
        (\<forall>n. T Parse (T_repeat Parse n i18n locale0 key args) locale0 key args =
               (T_format Parse (T_locale locale0) key args,
                snd (SaveTranslation (T_repeat Parse n i18n locale0 key args)
                       (T_placeholder i18n locale0 key)))))"
proof (intro impI conjI allI)
  assume a: "cacheStore i18n = memory_store m
     \<and> find (\<lambda>l. cached_value m l key \<noteq> []) (T_probes i18n locale0) = None"
  then have cs: "cacheStore i18n = memory_store m"
    and miss: "find (\<lambda>l. cached_value m l key \<noteq> []) (T_probes i18n locale0) = None"
    by simp_all
  show "snd (T Parse i18n locale0 key args) = snd (SaveTranslation i18n (T_placeholder i18n locale0 key))"
    using T_memory_miss [OF cs miss, of Parse args] by simp
  fix n
  assume v: "value_text i18n = []"
  let ?e = "T_repeat Parse n i18n locale0 key args"
  from T_repeat_miss [OF cs miss v, of Parse n args] obtain m' where
    cs': "cacheStore ?e = memory_store m'"
    and miss': "find (\<lambda>l. cached_value m' l key \<noteq> []) (T_probes ?e locale0) = None"
    and v': "value_text ?e = []"
    and p': "T_placeholder ?e locale0 key = T_placeholder i18n locale0 key"
    by blast
  show "T Parse ?e locale0 key args =
          (T_format Parse (T_locale locale0) key args,
           snd (SaveTranslation ?e (T_placeholder i18n locale0 key)))"
    using T_memory_miss [OF cs' miss', of Parse args] v' p' by simp
qed

text \<open>
  One accepting backend that counts its calls: after three lookups of the same unknown
  key it has been called three times, the cache holds the placeholder with an empty
  value, and a fourth lookup still returns the key.
\<close>

theorem T_saves_on_every_miss_witness:
  "map (\<lambda>b. calls (b_state b))
      (Backends (T_repeat Parse_plain (Suc (Suc (Suc 0)))
         (sample_engine memory_New [list_backend 0 True []]) ''de'' ''hello'' [])) = [3]
   \<and> cs_state (cacheStore (T_repeat Parse_plain (Suc (Suc (Suc 0)))
         (sample_engine memory_New [list_backend 0 True []]) ''de'' ''hello'' [])) ''de/hello''
       = Some \<lparr>s_Key = ''hello'', s_Locale = ''de'', s_Value = []\<rparr>
   \<and> fst (T Parse_plain (T_repeat Parse_plain (Suc (Suc (Suc 0)))
         (sample_engine memory_New [list_backend 0 True []]) ''de'' ''hello'' []) ''de'' ''hello'' []) = ''hello''"
proof -
  let ?e = "sample_engine memory_New [list_backend 0 True []]"
  let ?p = "\<lparr>Key = ''hello'', Locale = ''de'', Value = [], Backend = Some 0\<rparr>"
  define E where "E n = sample_engine (memory_store [''de/hello'' \<mapsto> snapshot ?p])
      [(list_backend 0 True [])\<lparr>b_state := \<lparr>held = [?p], calls = n\<rparr>\<rparr>]" for n
  have cs: "cacheStore ?e = memory_store Map.empty"
    by (simp add: sample_engine_def memory_New_def)
  have f: "find (\<lambda>l. cached_value Map.empty l ''hello'' \<noteq> []) (T_probes ?e ''de'') = None"
    by (simp add: T_probes_def cached_value_def sample_engine_def)
  have v: "value_text ?e = []" by (simp add: sample_engine_def)
  have ph: "T_placeholder ?e ''de'' ''hello'' = ?p"
    by (simp add: T_placeholder_def sample_engine_def list_backend_def T_locale_def)
  have all: "\<forall>n. T Parse_plain (T_repeat Parse_plain n ?e ''de'' ''hello'' []) ''de'' ''hello'' [] =
               (''hello'', snd (SaveTranslation (T_repeat Parse_plain n ?e ''de'' ''hello'' []) ?p))"
    using T_saves_on_every_miss [of ?e Map.empty "''hello''" "''de''" Parse_plain "[]"] cs f v ph
    by (simp add: T_format_def Parse_plain_def)
  have s0: "snd (SaveTranslation ?e ?p) = E (Suc 0)"
    by (simp add: E_def SaveTranslation_def Backend_Save_def sample_engine_def list_backend_def
        AddTranslation_fields memory_New_def Store_Set_memory cacheKey_def)
  have sn: "snd (SaveTranslation (E n) ?p) = E (Suc n)" for n
    by (simp add: E_def SaveTranslation_def Backend_Save_def sample_engine_def list_backend_def
        AddTranslation_fields Store_Set_memory cacheKey_def same_entry_def)
  have rn: "T_repeat Parse_plain (Suc n) ?e ''de'' ''hello'' [] = E (Suc n)" for n
  proof (induction n)
    case 0
    have "T_repeat Parse_plain (Suc 0) ?e ''de'' ''hello'' [] = snd (T Parse_plain ?e ''de'' ''hello'' [])"
      by simp
    also have "\<dots> = snd (SaveTranslation ?e ?p)"
      using all [rule_format, of 0] by simp
    finally show ?case by (simp only: s0)
  next
    case (Suc n)
    have "T_repeat Parse_plain (Suc (Suc n)) ?e ''de'' ''hello'' []
        = snd (T Parse_plain (T_repeat Parse_plain (Suc n) ?e ''de'' ''hello'' []) ''de'' ''hello'' [])"
      by (simp only: T_repeat.simps)
    also have "\<dots> = snd (SaveTranslation (T_repeat Parse_plain (Suc n) ?e ''de'' ''hello'' []) ?p)"
      by (simp only: all [rule_format, of "Suc n"] snd_conv)
    also have "\<dots> = E (Suc (Suc n))"
      by (simp only: Suc.IH sn)
    finally show ?case .
  qed
  have r3: "T_repeat Parse_plain (Suc (Suc (Suc 0))) ?e ''de'' ''hello'' [] = E (Suc (Suc (Suc 0)))"
    by (rule rn)
  have t3: "fst (T Parse_plain (T_repeat Parse_plain (Suc (Suc (Suc 0))) ?e ''de'' ''hello'' []) ''de'' ''hello'' [])
      = ''hello''"
    by (simp only: all [rule_format, of "Suc (Suc (Suc 0))"] fst_conv)
  show ?thesis
    unfolding t3 unfolding r3
    by (simp add: E_def sample_engine_def memory_store_def snapshot_def)
qed

section \<open>The lookup of an unknown key\<close>

text \<open>
  Claim C3, as stated, fails: with one backend that refuses every save, the lookup of
  an unknown key returns the key, and afterwards no backend holds a record and the
  cache is empty.
\<close>

theorem T_placeholder_not_persisted_counterexample:
  "fst (T Parse_plain (New [list_backend 0 False []]) ''de'' ''hello'' []) = ''hello''
   \<and> map (held \<circ> b_state)
        (Backends (snd (T Parse_plain (New [list_backend 0 False []]) ''de'' ''hello'' []))) = [[]]
   \<and> cs_state (cacheStore (snd (T Parse_plain (New [list_backend 0 False []]) ''de'' ''hello'' [])))
        = Map.empty"
proof -
  let ?e = "sample_engine memory_New [list_backend 0 False []]"
  have n: "New [list_backend 0 False []] = ?e"
    by (simp add: New_def loadToCacheStore_def sample_engine_def Backend_Load_def list_backend_def)
  have cs: "cacheStore ?e = memory_store Map.empty"
    by (simp add: sample_engine_def memory_New_def)
  have f: "find (\<lambda>l. cached_value Map.empty l ''hello'' \<noteq> []) (T_probes ?e ''de'') = None"
    by (simp add: T_probes_def cached_value_def sample_engine_def)
  have s: "snd (SaveTranslation ?e (T_placeholder ?e ''de'' ''hello'')) =
      ?e\<lparr>Backends := [(list_backend 0 False [])\<lparr>b_state := \<lparr>held = [], calls = Suc 0\<rparr>\<rparr>]\<rparr>"
    by (simp add: SaveTranslation_def Backend_Save_def sample_engine_def list_backend_def)
  show ?thesis
    unfolding n using T_memory_miss [OF cs f, of Parse_plain "[]"] s
    by (simp add: T_format_def Parse_plain_def sample_engine_def memory_New_def memory_store_def)
qed

text \<open>
  Claim C3, amended. With the in-memory store, when no probe yields a value and the
  engine has no default text: the value handed to the formatter is the key, and \<open>T\<close>
  returns the formatter's rendering of it; the record built has the scoped key, the
  effective locale, an empty value and the first backend as owner, and the engine after
  the call is the one after \<open>SaveTranslation\<close> of that record. When the backends
  before \<open>b\<close> refuse the record and \<open>b\<close> accepts it, the backends up to \<open>b\<close> have
  been asked, the cache holds the record under the cache key of locale and scoped key,
  and a second call with the same locale and key leaves the cache store as the first
  call left it. When every backend refuses, the cache store is unchanged.
\<close>

theorem T_miss_returns_key_and_saves_placeholder:
  "cacheStore i18n = memory_store m
     \<and> find (\<lambda>l. cached_value m l key \<noteq> []) (T_probes i18n locale0) = None
     \<and> value_text i18n = [] \<longrightarrow>
   T_placeholder i18n locale0 key =
     \<lparr>Key = (if scope i18n \<noteq> [] then scope i18n @ ''.'' @ key else key),
      Locale = T_locale locale0, Value = [],
      Backend = (case Backends i18n of [] \<Rightarrow> None | backend # _ \<Rightarrow> Some (b_ref backend))\<rparr>
   \<and> T_value i18n locale0 key = key
   \<and> fst (T Parse i18n locale0 key args) = T_format Parse (T_locale locale0) key args
   \<and> snd (T Parse i18n locale0 key args) = snd (SaveTranslation i18n (T_placeholder i18n locale0 key))
   \<and> (Backends i18n = pre @ b # post
        \<and> (\<forall>x \<in> set pre. fst (Backend_Save x (T_placeholder i18n locale0 key)) \<noteq> None)
        \<and> fst (Backend_Save b (T_placeholder i18n locale0 key)) = None \<longrightarrow>
      Backends (snd (T Parse i18n locale0 key args)) =
        map (\<lambda>x. snd (Backend_Save x (T_placeholder i18n locale0 key))) pre
          @ snd (Backend_Save b (T_placeholder i18n locale0 key)) # post
      \<and> cacheStore (snd (T Parse i18n locale0 key args)) =
          memory_store (m(cacheKey [T_locale locale0, Key (T_placeholder i18n locale0 key)]
                            \<mapsto> snapshot (T_placeholder i18n locale0 key)))
      \<and> cs_state (cacheStore (snd (T Parse i18n locale0 key args)))
            (cacheKey [T_locale locale0, Key (T_placeholder i18n locale0 key)])
          = Some \<lparr>s_Key = Key (T_placeholder i18n locale0 key), s_Locale = T_locale locale0, s_Value = []\<rparr>
      \<and> cacheStore (T_repeat Parse (Suc (Suc 0)) i18n locale0 key args)
          = cacheStore (T_repeat Parse (Suc 0) i18n locale0 key args))
   \<and> ((\<forall>x \<in> set (Backends i18n). fst (Backend_Save x (T_placeholder i18n locale0 key)) \<noteq> None) \<longrightarrow>
        cacheStore (snd (T Parse i18n locale0 key args)) = cacheStore i18n)"
proof (intro impI)
  let ?p = "T_placeholder i18n locale0 key"
  let ?k = "cacheKey [T_locale locale0, Key ?p]"
  assume a: "cacheStore i18n = memory_store m
     \<and> find (\<lambda>l. cached_value m l key \<noteq> []) (T_probes i18n locale0) = None
     \<and> value_text i18n = []"
  then have cs: "cacheStore i18n = memory_store m"
    and miss: "find (\<lambda>l. cached_value m l key \<noteq> []) (T_probes i18n locale0) = None"
    and v: "value_text i18n = []"
    by simp_all
  have lp: "Locale ?p = T_locale locale0" and vp: "Value ?p = []"
    using v by (simp_all add: T_placeholder_def)
  have c1: "?p = \<lparr>Key = (if scope i18n \<noteq> [] then scope i18n @ ''.'' @ key else key),
      Locale = T_locale locale0, Value = [],
      Backend = (case Backends i18n of [] \<Rightarrow> None | backend # _ \<Rightarrow> Some (b_ref backend))\<rparr>"
    using v by (simp add: T_placeholder_def)
  have c2: "T_value i18n locale0 key = key"
    using T_resolve_memory_miss [OF cs miss] v by (simp add: T_value_def T_placeholder_def)
  have c3: "fst (T Parse i18n locale0 key args) = T_format Parse (T_locale locale0) key args"
    using T_memory_miss [OF cs miss, of Parse args] v by simp
  have c4: "snd (T Parse i18n locale0 key args) = snd (SaveTranslation i18n ?p)"
    using T_memory_miss [OF cs miss, of Parse args] by simp
  have c5: "Backends (snd (T Parse i18n locale0 key args)) =
        map (\<lambda>x. snd (Backend_Save x ?p)) pre @ snd (Backend_Save b ?p) # post
      \<and> cacheStore (snd (T Parse i18n locale0 key args)) = memory_store (m(?k \<mapsto> snapshot ?p))
      \<and> cs_state (cacheStore (snd (T Parse i18n locale0 key args))) ?k
          = Some \<lparr>s_Key = Key ?p, s_Locale = T_locale locale0, s_Value = []\<rparr>
      \<and> cacheStore (T_repeat Parse (Suc (Suc 0)) i18n locale0 key args)
          = cacheStore (T_repeat Parse (Suc 0) i18n locale0 key args)"
    if h: "Backends i18n = pre @ b # post
        \<and> (\<forall>x \<in> set pre. fst (Backend_Save x ?p) \<noteq> None)
        \<and> fst (Backend_Save b ?p) = None"
  proof -
    from h have d: "Backends i18n = pre @ b # post"
      and pre: "\<forall>x \<in> set pre. fst (Backend_Save x ?p) \<noteq> None"
      and b: "fst (Backend_Save b ?p) = None" by simp_all
    have s: "snd (SaveTranslation i18n ?p) =
        i18n\<lparr>Backends := map (\<lambda>x. snd (Backend_Save x ?p)) pre @ snd (Backend_Save b ?p) # post,
              cacheStore := memory_store (m(?k \<mapsto> snapshot ?p))\<rparr>"
      using SaveTranslation_loop_first_success [OF pre b, of i18n "[]" post] d
      by (simp add: SaveTranslation_def AddTranslation_fields cs Store_Set_memory lp)
    let ?e1 = "snd (SaveTranslation i18n ?p)"
    have cs1: "cacheStore ?e1 = memory_store (m(?k \<mapsto> snapshot ?p))" by (simp add: s)
    from T_miss_step [OF cs miss v] obtain m' where
      "cacheStore ?e1 = memory_store m'"
      and miss1': "find (\<lambda>l. cached_value m' l key \<noteq> []) (T_probes ?e1 locale0) = None"
      and p1: "T_placeholder ?e1 locale0 key = ?p"
      by blast
    with cs1 have miss1: "find (\<lambda>l. cached_value (m(?k \<mapsto> snapshot ?p)) l key \<noteq> []) (T_probes ?e1 locale0) = None"
      by (simp add: memory_store_def)
    have r1: "T_repeat Parse (Suc 0) i18n locale0 key args = ?e1"
      by (simp add: c4)
    have r2: "T_repeat Parse (Suc (Suc 0)) i18n locale0 key args = snd (SaveTranslation ?e1 ?p)"
      using T_memory_miss [OF cs1 miss1, of Parse args] p1 by (simp add: c4)
    from SaveTranslation_shape [of ?e1 ?p] obtain bs' cs' where
      s2: "snd (SaveTranslation ?e1 ?p) = ?e1\<lparr>Backends := bs', cacheStore := cs'\<rparr>"
      and c: "cs' = cacheStore ?e1 \<or> cs' = snd (Store_Set (cacheStore ?e1) (cacheKey [Locale ?p, Key ?p]) ?p)"
      by blast
    have "cs' = cacheStore ?e1"
      using c by (auto simp: cs1 Store_Set_memory lp)
    then have same: "cacheStore (T_repeat Parse (Suc (Suc 0)) i18n locale0 key args)
          = cacheStore (T_repeat Parse (Suc 0) i18n locale0 key args)"
      by (simp only: r1 r2 s2) simp
    show ?thesis
      using s same by (simp add: c4 memory_store_def snapshot_def lp vp)
  qed
  have c6: "cacheStore (snd (T Parse i18n locale0 key args)) = cacheStore i18n"
    if h: "\<forall>x \<in> set (Backends i18n). fst (Backend_Save x ?p) \<noteq> None"
    using SaveTranslation_loop_all_fail [OF h, of i18n "[]"] by (simp add: c4 SaveTranslation_def)
  from c1 c2 c3 c4 c5 c6 show
   "?p = \<lparr>Key = (if scope i18n \<noteq> [] then scope i18n @ ''.'' @ key else key),
      Locale = T_locale locale0, Value = [],
      Backend = (case Backends i18n of [] \<Rightarrow> None | backend # _ \<Rightarrow> Some (b_ref backend))\<rparr>
   \<and> T_value i18n locale0 key = key
   \<and> fst (T Parse i18n locale0 key args) = T_format Parse (T_locale locale0) key args
   \<and> snd (T Parse i18n locale0 key args) = snd (SaveTranslation i18n ?p)
   \<and> (Backends i18n = pre @ b # post
        \<and> (\<forall>x \<in> set pre. fst (Backend_Save x ?p) \<noteq> None)
        \<and> fst (Backend_Save b ?p) = None \<longrightarrow>
      Backends (snd (T Parse i18n locale0 key args)) =
        map (\<lambda>x. snd (Backend_Save x ?p)) pre @ snd (Backend_Save b ?p) # post
      \<and> cacheStore (snd (T Parse i18n locale0 key args)) = memory_store (m(?k \<mapsto> snapshot ?p))
      \<and> cs_state (cacheStore (snd (T Parse i18n locale0 key args))) ?k
          = Some \<lparr>s_Key = Key ?p, s_Locale = T_locale locale0, s_Value = []\<rparr>
      \<and> cacheStore (T_repeat Parse (Suc (Suc 0)) i18n locale0 key args)
          = cacheStore (T_repeat Parse (Suc 0) i18n locale0 key args))
   \<and> ((\<forall>x \<in> set (Backends i18n). fst (Backend_Save x ?p) \<noteq> None) \<longrightarrow>
        cacheStore (snd (T Parse i18n locale0 key args)) = cacheStore i18n)"
    by blast
qed

text \<open>
  A chain of a backend that refuses and one that accepts: the lookup of \<open>hello\<close> for
  \<open>de\<close> returns \<open>hello\<close>, the second backend holds the record with an empty value and
  the first backend as owner, the cache has it under \<open>de/hello\<close>, and a second lookup
  leaves the cache store as it is.
\<close>

theorem T_miss_returns_key_and_saves_placeholder_witness:
  "fst (T Parse_plain (sample_engine memory_New [list_backend 0 False [], list_backend 1 True []])
          ''de'' ''hello'' []) = ''hello''
   \<and> map (\<lambda>b. held (b_state b))
        (Backends (snd (T Parse_plain (sample_engine memory_New [list_backend 0 False [], list_backend 1 True []])
          ''de'' ''hello'' [])))
      = [[], [\<lparr>Key = ''hello'', Locale = ''de'', Value = [], Backend = Some 0\<rparr>]]
   \<and> cs_state (cacheStore (snd (T Parse_plain
          (sample_engine memory_New [list_backend 0 False [], list_backend 1 True []]) ''de'' ''hello'' [])))
        ''de/hello'' = Some \<lparr>s_Key = ''hello'', s_Locale = ''de'', s_Value = []\<rparr>
   \<and> cacheStore (T_repeat Parse_plain (Suc (Suc 0))
          (sample_engine memory_New [list_backend 0 False [], list_backend 1 True []]) ''de'' ''hello'' [])
      = cacheStore (T_repeat Parse_plain (Suc 0)
          (sample_engine memory_New [list_backend 0 False [], list_backend 1 True []]) ''de'' ''hello'' [])"
proof -
  let ?e = "sample_engine memory_New [list_backend 0 False [], list_backend 1 True []]"
  let ?p = "\<lparr>Key = ''hello'', Locale = ''de'', Value = [], Backend = Some 0\<rparr>"
  have cs: "cacheStore ?e = memory_store Map.empty"
    by (simp add: sample_engine_def memory_New_def)
  have f: "find (\<lambda>l. cached_value Map.empty l ''hello'' \<noteq> []) (T_probes ?e ''de'') = None"
    by (simp add: T_probes_def cached_value_def sample_engine_def)
  have v: "value_text ?e = []" by (simp add: sample_engine_def)
  have ph: "T_placeholder ?e ''de'' ''hello'' = ?p"
    by (simp add: T_placeholder_def sample_engine_def list_backend_def T_locale_def)
  have d: "Backends ?e = [list_backend 0 False []] @ list_backend 1 True [] # []"
    by (simp add: sample_engine_def)
  have b0: "\<forall>x \<in> set [list_backend 0 False []]. fst (Backend_Save x ?p) \<noteq> None"
    by (simp add: Backend_Save_def list_backend_def)
  have b1: "fst (Backend_Save (list_backend 1 True []) ?p) = None"
    by (simp add: Backend_Save_def list_backend_def)
  have h0: "held (b_state (snd (Backend_Save (list_backend 0 False []) ?p))) = []"
    by (simp add: Backend_Save_def list_backend_def)
  have h1: "held (b_state (snd (Backend_Save (list_backend 1 True []) ?p))) = [?p]"
    by (simp add: Backend_Save_def list_backend_def)
  let ?q = "T_placeholder ?e ''de'' ''hello''"
  have hyp: "cacheStore ?e = memory_store Map.empty
     \<and> find (\<lambda>l. cached_value Map.empty l ''hello'' \<noteq> []) (T_probes ?e ''de'') = None
     \<and> value_text ?e = []"
    using cs f v by blast
  have hx: "Backends ?e = [list_backend 0 False []] @ list_backend 1 True [] # []
        \<and> (\<forall>x \<in> set [list_backend 0 False []]. fst (Backend_Save x ?q) \<noteq> None)
        \<and> fst (Backend_Save (list_backend 1 True []) ?q) = None"
    unfolding ph using d b0 b1 by blast
  note B = T_miss_returns_key_and_saves_placeholder
        [where ?i18n = ?e and m = Map.empty and key = "''hello''" and ?locale0.0 = "''de''"
           and Parse = Parse_plain and args = "[]"
           and pre = "[list_backend 0 False []]" and b = "list_backend 1 True []" and post = "[]",
         THEN mp, OF hyp]
  from B have r1: "fst (T Parse_plain ?e ''de'' ''hello'' []) = T_format Parse_plain (T_locale ''de'') ''hello'' []"
    by blast
  from B hx have r2: "Backends (snd (T Parse_plain ?e ''de'' ''hello'' [])) =
        map (\<lambda>x. snd (Backend_Save x ?q)) [list_backend 0 False []]
          @ snd (Backend_Save (list_backend 1 True []) ?q) # []"
    by blast
  from B hx have r3: "cs_state (cacheStore (snd (T Parse_plain ?e ''de'' ''hello'' [])))
            (cacheKey [T_locale ''de'', Key ?q])
          = Some \<lparr>s_Key = Key ?q, s_Locale = T_locale ''de'', s_Value = []\<rparr>"
    by blast
  from B hx have r4: "cacheStore (T_repeat Parse_plain (Suc (Suc 0)) ?e ''de'' ''hello'' [])
          = cacheStore (T_repeat Parse_plain (Suc 0) ?e ''de'' ''hello'' [])"
    by blast
  have c1: "fst (T Parse_plain ?e ''de'' ''hello'' []) = ''hello''"
    using r1 by (simp add: T_format_def Parse_plain_def)
  have c2: "map (\<lambda>b. held (b_state b)) (Backends (snd (T Parse_plain ?e ''de'' ''hello'' []))) = [[], [?p]]"
    using r2 h0 h1 unfolding ph by simp
  have c3: "cs_state (cacheStore (snd (T Parse_plain ?e ''de'' ''hello'' []))) ''de/hello''
      = Some \<lparr>s_Key = ''hello'', s_Locale = ''de'', s_Value = []\<rparr>"
    using r3 unfolding ph by (simp add: cacheKey_def T_locale_def)
  from c1 c2 c3 r4 show ?thesis by blast
qed

section \<open>Loading the backends into the cache\<close>

lemma AddTranslation_memory:
  "cacheStore i18n = memory_store m \<Longrightarrow>
   snd (AddTranslation i18n t) = i18n\<lparr>cacheStore := memory_store (cache_put t m)\<rparr>"
  by (simp add: AddTranslation_fields Store_Set_memory cache_put_def)

lemma fold_AddTranslation_memory:
  "cacheStore i18n = memory_store m \<Longrightarrow>
   fold (\<lambda>translation e'. snd (AddTranslation e' translation)) ts i18n
     = i18n\<lparr>cacheStore := memory_store (fold cache_put ts m)\<rparr>"
proof (induction ts arbitrary: i18n m)
  case Nil
  then show ?case by simp
next
  case (Cons t ts)
  have c: "cacheStore (i18n\<lparr>cacheStore := memory_store (cache_put t m)\<rparr>) = memory_store (cache_put t m)"
    by simp
  show ?case
    using Cons.IH [OF c] by (simp add: AddTranslation_memory [OF Cons.prems])
qed

lemma fold_backends_memory:
  "cacheStore i18n = memory_store m \<Longrightarrow>
   fold (\<lambda>backend e. fold (\<lambda>translation e'. snd (AddTranslation e' translation)) (Backend_Load backend) e)
     bs i18n
     = i18n\<lparr>cacheStore := memory_store (fold cache_put (concat (map Backend_Load bs)) m)\<rparr>"
proof (induction bs arbitrary: i18n m)
  case Nil
  then show ?case by simp
next
  case (Cons b bs)
  let ?m = "fold cache_put (Backend_Load b) m"
  have c: "cacheStore (i18n\<lparr>cacheStore := memory_store ?m\<rparr>) = memory_store ?m"
    by simp
  show ?case
    using Cons.IH [OF c] by (simp add: fold_AddTranslation_memory [OF Cons.prems])
qed

lemma loadToCacheStore_memory:
  "cacheStore i18n = memory_store m \<Longrightarrow>
   loadToCacheStore i18n
     = i18n\<lparr>cacheStore := memory_store
               (fold cache_put (concat (map Backend_Load (rev (Backends i18n)))) m)\<rparr>"
  unfolding loadToCacheStore_def by (rule fold_backends_memory)

lemma fold_cache_put_lookup:
  "fold cache_put ts m k =
     (if filter (\<lambda>t. cacheKey [Locale t, Key t] = k) ts = [] then m k
      else Some (snapshot (last (filter (\<lambda>t. cacheKey [Locale t, Key t] = k) ts))))"
proof (induction ts rule: rev_induct)
  case Nil
  show ?case by simp
next
  case (snoc x xs)
  show ?case
  proof (cases "cacheKey [Locale x, Key x] = k")
    case True
    then show ?thesis by (simp add: cache_put_def)
  next
    case False
    then show ?thesis using snoc.IH by (simp add: cache_put_def)
  qed
qed

lemma filter_concat_none:
  "\<forall>x \<in> set bs. \<forall>u \<in> set (f x). \<not> P u \<Longrightarrow> filter P (concat (map f bs)) = []"
  by (induction bs) (simp_all add: filter_empty_conv)

lemma loaded_entry:
  assumes d: "bs = pre @ b # post"
    and pre: "\<forall>x \<in> set pre. \<forall>u \<in> set (Backend_Load x). cacheKey [Locale u, Key u] \<noteq> k"
    and ex: "\<exists>u \<in> set (Backend_Load b). cacheKey [Locale u, Key u] = k"
  shows "fold cache_put (concat (map Backend_Load (rev bs))) m k
     = Some (snapshot (last (filter (\<lambda>u. cacheKey [Locale u, Key u] = k) (Backend_Load b))))"
proof -
  let ?P = "\<lambda>u. cacheKey [Locale u, Key u] = k"
  have ne: "filter ?P (Backend_Load b) \<noteq> []"
    using ex by (auto simp: filter_empty_conv)
  have p0: "filter ?P (concat (map Backend_Load (rev pre))) = []"
    using pre by (intro filter_concat_none) simp
  have f: "filter ?P (concat (map Backend_Load (rev bs)))
      = filter ?P (concat (map Backend_Load (rev post))) @ filter ?P (Backend_Load b)"
    by (simp add: d p0)
  have l: "last (filter ?P (concat (map Backend_Load (rev bs)))) = last (filter ?P (Backend_Load b))"
    using f ne by simp
  have n: "filter ?P (concat (map Backend_Load (rev bs))) \<noteq> []"
    using f ne by simp
  show ?thesis
    using n l by (simp add: fold_cache_put_lookup)
qed


lemma last_filter_unique:
  assumes "t \<in> set xs" "P t" "\<forall>u \<in> set xs. P u \<longrightarrow> u = t"
  shows "last (filter P xs) = t"
proof -
  have ne: "filter P xs \<noteq> []" using assms(1,2) by (auto simp: filter_empty_conv)
  then have "last (filter P xs) \<in> set (filter P xs)" by (rule last_in_set)
  then show ?thesis using assms(3) by auto
qed

lemma New_sample: "New bs = loadToCacheStore (sample_engine memory_New bs)"
  by (simp add: New_def sample_engine_def)

text \<open>
  Claim C1, as stated, fails. The first backend reports the pairs \<open>("en", "US/x")\<close>
  with value \<open>A\<close> and \<open>("en/US", "x")\<close> with value \<open>B\<close>, the second backend the pair
  \<open>("en", "US/x")\<close> with value \<open>C\<close>: both pairs of the first backend have the cache
  key \<open>en/US/x\<close>, the entry left for the pair defined by both backends is the record
  of the other pair, and the lookup of \<open>("en", "US/x")\<close> returns \<open>B\<close>, not the first
  backend's value \<open>A\<close> for that pair. And when the first backend's value for a pair
  is empty and the second backend's is not, the lookup returns the key.
\<close>

theorem loadToCacheStore_first_declared_counterexample:
  "cs_state (cacheStore (New
       [list_backend 0 True [tr ''en'' ''US/x'' ''A'', tr ''en/US'' ''x'' ''B''],
        list_backend 1 True [tr ''en'' ''US/x'' ''C'']]))
     (cacheKey [''en'', ''US/x'']) = Some (snapshot (tr ''en/US'' ''x'' ''B''))
   \<and> fst (T Parse_plain (New
       [list_backend 0 True [tr ''en'' ''US/x'' ''A'', tr ''en/US'' ''x'' ''B''],
        list_backend 1 True [tr ''en'' ''US/x'' ''C'']]) ''en'' ''US/x'' []) = ''B''
   \<and> fst (T Parse_plain (New
       [list_backend 0 True [tr ''de'' ''hello'' []],
        list_backend 1 True [tr ''de'' ''hello'' ''Hallo'']]) ''de'' ''hello'' []) = ''hello''"
proof -
  let ?bs = "[list_backend 0 True [tr ''en'' ''US/x'' ''A'', tr ''en/US'' ''x'' ''B''],
              list_backend 1 True [tr ''en'' ''US/x'' ''C'']]"
  let ?m = "[''en/US/x'' \<mapsto> snapshot (tr ''en/US'' ''x'' ''B'')]"
  have cs0: "cacheStore (sample_engine memory_New bs) = memory_store Map.empty" for bs :: "bstate Backend list"
    by (simp add: sample_engine_def memory_New_def)
  have n: "New ?bs = (sample_engine memory_New ?bs)\<lparr>cacheStore := memory_store ?m\<rparr>"
    unfolding New_sample loadToCacheStore_memory [OF cs0]
    by (simp add: sample_engine_def Backend_Load_def list_backend_def cache_put_def cacheKey_def tr_def)
  have cs: "cacheStore (New ?bs) = memory_store ?m" unfolding n by simp
  have c1: "cs_state (cacheStore (New ?bs)) (cacheKey [''en'', ''US/x'']) = Some (snapshot (tr ''en/US'' ''x'' ''B''))"
    using cs by (simp add: memory_store_def cacheKey_def)
  have f: "find (\<lambda>l. cached_value ?m l ''US/x'' \<noteq> []) (T_probes (New ?bs) ''en'') = Some ''en''"
    unfolding n
    by (simp add: T_probes_def T_locale_def cached_value_def cacheKey_def snapshot_def tr_def sample_engine_def)
  have c2: "fst (T Parse_plain (New ?bs) ''en'' ''US/x'' []) = ''B''"
    using T_memory_hit [OF cs f, of Parse_plain "[]"]
    by (simp add: T_format_def Parse_plain_def cached_value_def cacheKey_def snapshot_def tr_def)
  let ?bs' = "[list_backend 0 True [tr ''de'' ''hello'' []], list_backend 1 True [tr ''de'' ''hello'' ''Hallo'']]"
  let ?m' = "[''de/hello'' \<mapsto> snapshot (tr ''de'' ''hello'' [])]"
  have n': "New ?bs' = (sample_engine memory_New ?bs')\<lparr>cacheStore := memory_store ?m'\<rparr>"
    unfolding New_sample loadToCacheStore_memory [OF cs0]
    by (simp add: sample_engine_def Backend_Load_def list_backend_def cache_put_def cacheKey_def tr_def)
  have cs': "cacheStore (New ?bs') = memory_store ?m'" unfolding n' by simp
  have f': "find (\<lambda>l. cached_value ?m' l ''hello'' \<noteq> []) (T_probes (New ?bs') ''de'') = None"
    unfolding n'
    by (simp add: T_probes_def T_locale_def Default_def cached_value_def cacheKey_def snapshot_def tr_def
        sample_engine_def)
  have c3: "fst (T Parse_plain (New ?bs') ''de'' ''hello'' []) = ''hello''"
    using T_memory_miss [OF cs' f', of Parse_plain "[]"] unfolding n'
    by (simp add: T_format_def Parse_plain_def sample_engine_def)
  from c1 c2 c3 show ?thesis by blast
qed

text \<open>
  Claim C1, amended. With the in-memory store, the full load runs over the backends from
  the last declared to the first and adds every reported record, in the order reported,
  under its cache key. So for a cache key \<open>k\<close> that some record of the backend \<open>b\<close>
  has and no record of the backends declared before \<open>b\<close> has, the entry left in the
  cache is the last record with that cache key that \<open>b\<close> reports. When \<open>t\<close> is the
  only record of \<open>b\<close> with that cache key, the entry is the record \<open>t\<close>, and when its
  value is not empty a lookup for its locale and key on the loaded engine resolves to
  that value and changes nothing. For the first declared backend there is no backend
  before it. \<open>New\<close> and \<open>SetCacheStore\<close> are this load on the new store.
\<close>

theorem loadToCacheStore_first_declared_wins:
  "cacheStore i18n = memory_store m \<and> Backends i18n = pre @ b # post
     \<and> (\<forall>x \<in> set pre. \<forall>u \<in> set (Backend_Load x). cacheKey [Locale u, Key u] \<noteq> k)
     \<and> (\<exists>u \<in> set (Backend_Load b). cacheKey [Locale u, Key u] = k) \<longrightarrow>
   loadToCacheStore i18n =
     i18n\<lparr>cacheStore := memory_store
            (fold cache_put (concat (map Backend_Load (rev (Backends i18n)))) m)\<rparr>
   \<and> cs_state (cacheStore (loadToCacheStore i18n)) k =
       Some (snapshot (last (filter (\<lambda>u. cacheKey [Locale u, Key u] = k) (Backend_Load b))))
   \<and> (\<forall>t \<in> set (Backend_Load b).
         cacheKey [Locale t, Key t] = k
         \<and> (\<forall>u \<in> set (Backend_Load b). cacheKey [Locale u, Key u] = k \<longrightarrow> u = t) \<longrightarrow>
         cs_state (cacheStore (loadToCacheStore i18n)) k = Some (snapshot t)
         \<and> (Value t \<noteq> [] \<longrightarrow>
              (\<forall>locale0. T_locale locale0 = Locale t \<longrightarrow>
                 T Parse (loadToCacheStore i18n) locale0 (Key t) args =
                   (T_format Parse (Locale t) (Value t) args, loadToCacheStore i18n))))"
proof (intro impI)
  let ?P = "\<lambda>u. cacheKey [Locale u, Key u] = k"
  let ?m' = "fold cache_put (concat (map Backend_Load (rev (Backends i18n)))) m"
  let ?e' = "loadToCacheStore i18n"
  assume a: "cacheStore i18n = memory_store m \<and> Backends i18n = pre @ b # post
     \<and> (\<forall>x \<in> set pre. \<forall>u \<in> set (Backend_Load x). cacheKey [Locale u, Key u] \<noteq> k)
     \<and> (\<exists>u \<in> set (Backend_Load b). cacheKey [Locale u, Key u] = k)"
  then have cs: "cacheStore i18n = memory_store m" and d: "Backends i18n = pre @ b # post"
    and pre: "\<forall>x \<in> set pre. \<forall>u \<in> set (Backend_Load x). cacheKey [Locale u, Key u] \<noteq> k"
    and ex: "\<exists>u \<in> set (Backend_Load b). cacheKey [Locale u, Key u] = k"
    by simp_all
  have c1: "?e' = i18n\<lparr>cacheStore := memory_store ?m'\<rparr>"
    using cs by (rule loadToCacheStore_memory)
  have cs': "cacheStore ?e' = memory_store ?m'"
    by (simp add: c1)
  have e: "?m' k = Some (snapshot (last (filter ?P (Backend_Load b))))"
    using d pre ex by (rule loaded_entry)
  have c2: "cs_state (cacheStore ?e') k = Some (snapshot (last (filter ?P (Backend_Load b))))"
    using e by (simp add: cs' memory_store_def)
  have c3a: "cs_state (cacheStore ?e') k = Some (snapshot t)"
    if t: "t \<in> set (Backend_Load b)"
      and h: "cacheKey [Locale t, Key t] = k
         \<and> (\<forall>u \<in> set (Backend_Load b). cacheKey [Locale u, Key u] = k \<longrightarrow> u = t)" for t
  proof -
    from h have h1: "cacheKey [Locale t, Key t] = k"
      and h2: "\<forall>u \<in> set (Backend_Load b). cacheKey [Locale u, Key u] = k \<longrightarrow> u = t" by blast+
    have l: "last (filter ?P (Backend_Load b)) = t"
      using t h1 h2 by (rule last_filter_unique)
    show ?thesis unfolding c2 l ..
  qed
  have c3b: "T Parse ?e' locale0 (Key t) args = (T_format Parse (Locale t) (Value t) args, ?e')"
    if t: "t \<in> set (Backend_Load b)"
      and h: "cacheKey [Locale t, Key t] = k
         \<and> (\<forall>u \<in> set (Backend_Load b). cacheKey [Locale u, Key u] = k \<longrightarrow> u = t)"
      and v: "Value t \<noteq> []" and lo: "T_locale locale0 = Locale t" for t locale0
  proof -
    from h have h1: "cacheKey [Locale t, Key t] = k" by blast
    have "cs_state (cacheStore ?e') (cacheKey [Locale t, Key t]) = Some (snapshot t)"
      unfolding h1 using t h by (rule c3a)
    then have "?m' (cacheKey [Locale t, Key t]) = Some (snapshot t)"
      by (simp add: cs' memory_store_def)
    then have cv: "cached_value ?m' (Locale t) (Key t) = Value t"
      by (simp add: cached_value_def snapshot_def)
    have pr: "T_probes ?e' locale0 = Locale t # tl (T_probes ?e' locale0)"
      by (simp add: T_probes_def lo)
    have f: "find (\<lambda>l. cached_value ?m' l (Key t) \<noteq> []) (T_probes ?e' locale0) = Some (Locale t)"
      by (subst pr) (simp add: cv v)
    from T_memory_hit [OF cs' f, of Parse args] show ?thesis
      by (simp only: cv lo)
  qed
  show
   "?e' = i18n\<lparr>cacheStore := memory_store ?m'\<rparr>
   \<and> cs_state (cacheStore ?e') k = Some (snapshot (last (filter ?P (Backend_Load b))))
   \<and> (\<forall>t \<in> set (Backend_Load b).
         cacheKey [Locale t, Key t] = k
         \<and> (\<forall>u \<in> set (Backend_Load b). cacheKey [Locale u, Key u] = k \<longrightarrow> u = t) \<longrightarrow>
         cs_state (cacheStore ?e') k = Some (snapshot t)
         \<and> (Value t \<noteq> [] \<longrightarrow>
              (\<forall>locale0. T_locale locale0 = Locale t \<longrightarrow>
                 T Parse ?e' locale0 (Key t) args = (T_format Parse (Locale t) (Value t) args, ?e'))))"
  proof (intro conjI ballI impI allI)
    show "?e' = i18n\<lparr>cacheStore := memory_store ?m'\<rparr>" by (rule c1)
    show "cs_state (cacheStore ?e') k = Some (snapshot (last (filter ?P (Backend_Load b))))" by (rule c2)
  next
    fix t
    assume "t \<in> set (Backend_Load b)"
      and "cacheKey [Locale t, Key t] = k
         \<and> (\<forall>u \<in> set (Backend_Load b). cacheKey [Locale u, Key u] = k \<longrightarrow> u = t)"
    then show "cs_state (cacheStore ?e') k = Some (snapshot t)" by (rule c3a)
  next
    fix t locale0
    assume "t \<in> set (Backend_Load b)"
      and "cacheKey [Locale t, Key t] = k
         \<and> (\<forall>u \<in> set (Backend_Load b). cacheKey [Locale u, Key u] = k \<longrightarrow> u = t)"
      and "Value t \<noteq> []" and "T_locale locale0 = Locale t"
    then show "T Parse ?e' locale0 (Key t) args = (T_format Parse (Locale t) (Value t) args, ?e')"
      by (rule c3b)
  qed
qed

text \<open>
  Two backends that both report \<open>hello\<close> for \<open>en\<close>, with the values \<open>Hello\<close> and
  \<open>Howdy\<close>: the engine built by \<open>New\<close> has the first backend's record in the cache
  and the lookup returns \<open>Hello\<close>; so does the lookup after \<open>SetCacheStore\<close> with a
  store that held a stale entry for the key.
\<close>

theorem loadToCacheStore_first_declared_wins_witness:
  "T Parse_plain
     (New [list_backend 0 True [tr ''en'' ''hello'' ''Hello''],
           list_backend 1 True [tr ''en'' ''hello'' ''Howdy'', tr ''en'' ''bye'' ''Bye'']])
     ''en'' ''hello'' []
   = (''Hello'',
      New [list_backend 0 True [tr ''en'' ''hello'' ''Hello''],
           list_backend 1 True [tr ''en'' ''hello'' ''Howdy'', tr ''en'' ''bye'' ''Bye'']])
   \<and> cs_state (cacheStore
        (New [list_backend 0 True [tr ''en'' ''hello'' ''Hello''],
              list_backend 1 True [tr ''en'' ''hello'' ''Howdy'', tr ''en'' ''bye'' ''Bye'']])) ''en/hello''
      = Some \<lparr>s_Key = ''hello'', s_Locale = ''en'', s_Value = ''Hello''\<rparr>
   \<and> fst (T Parse_plain
        (SetCacheStore
           (sample_engine memory_New
              [list_backend 0 True [tr ''en'' ''hello'' ''Hello''],
               list_backend 1 True [tr ''en'' ''hello'' ''Howdy'', tr ''en'' ''bye'' ''Bye'']])
           (memory_store [''en/hello'' \<mapsto> snapshot (tr ''en'' ''hello'' ''Stale'')]))
        ''en'' ''hello'' []) = ''Hello''"
proof -
  let ?b1 = "list_backend 0 True [tr ''en'' ''hello'' ''Hello'']"
  let ?b2 = "list_backend 1 True [tr ''en'' ''hello'' ''Howdy'', tr ''en'' ''bye'' ''Bye'']"
  let ?e = "sample_engine memory_New [?b1, ?b2]"
  let ?t = "tr ''en'' ''hello'' ''Hello''"
  have l1: "Backend_Load ?b1 = [?t]"
    by (simp add: Backend_Load_def list_backend_def)
  have k: "cacheKey [Locale ?t, Key ?t] = ''en/hello''"
    by (simp add: cacheKey_def tr_def)
  have hyp: "cacheStore ?e = memory_store Map.empty \<and> Backends ?e = [] @ ?b1 # [?b2]
     \<and> (\<forall>x \<in> set []. \<forall>u \<in> set (Backend_Load x). cacheKey [Locale u, Key u] \<noteq> ''en/hello'')
     \<and> (\<exists>u \<in> set (Backend_Load ?b1). cacheKey [Locale u, Key u] = ''en/hello'')"
    unfolding l1 using k by (simp add: sample_engine_def memory_New_def)
  note B = loadToCacheStore_first_declared_wins
      [where ?i18n = ?e and m = Map.empty and pre = "[]" and b = ?b1 and post = "[?b2]"
         and k = "''en/hello''" and Parse = Parse_plain and args = "[]", THEN mp, OF hyp]
  have t: "?t \<in> set (Backend_Load ?b1)" by (simp add: l1)
  have u: "cacheKey [Locale ?t, Key ?t] = ''en/hello''
         \<and> (\<forall>u \<in> set (Backend_Load ?b1). cacheKey [Locale u, Key u] = ''en/hello'' \<longrightarrow> u = ?t)"
    unfolding l1 using k by simp
  have v: "Value ?t \<noteq> []" by (simp add: tr_def)
  have lo: "T_locale ''en'' = Locale ?t" by (simp add: T_locale_def tr_def)
  from B t u have r1: "cs_state (cacheStore (loadToCacheStore ?e)) ''en/hello'' = Some (snapshot ?t)"
    by blast
  from B t u v lo have r2: "T Parse_plain (loadToCacheStore ?e) ''en'' (Key ?t) [] =
      (T_format Parse_plain (Locale ?t) (Value ?t) [], loadToCacheStore ?e)"
    by blast
  have c1: "T Parse_plain (New [?b1, ?b2]) ''en'' ''hello'' [] = (''Hello'', New [?b1, ?b2])"
    using r2 unfolding New_sample by (simp add: tr_def T_format_def Parse_plain_def)
  have c2: "cs_state (cacheStore (New [?b1, ?b2])) ''en/hello''
      = Some \<lparr>s_Key = ''hello'', s_Locale = ''en'', s_Value = ''Hello''\<rparr>"
    using r1 unfolding New_sample by (simp add: tr_def snapshot_def)
  let ?s = "[''en/hello'' \<mapsto> snapshot (tr ''en'' ''hello'' ''Stale'')]"
  let ?e2 = "sample_engine (memory_store ?s) [?b1, ?b2]"
  have sw: "SetCacheStore ?e (memory_store ?s) = loadToCacheStore ?e2"
    by (simp add: SetCacheStore_def sample_engine_def)
  have hyp2: "cacheStore ?e2 = memory_store ?s \<and> Backends ?e2 = [] @ ?b1 # [?b2]
     \<and> (\<forall>x \<in> set []. \<forall>u \<in> set (Backend_Load x). cacheKey [Locale u, Key u] \<noteq> ''en/hello'')
     \<and> (\<exists>u \<in> set (Backend_Load ?b1). cacheKey [Locale u, Key u] = ''en/hello'')"
    unfolding l1 using k by (simp add: sample_engine_def)
  note B2 = loadToCacheStore_first_declared_wins
      [where ?i18n = ?e2 and m = ?s and pre = "[]" and b = ?b1 and post = "[?b2]"
         and k = "''en/hello''" and Parse = Parse_plain and args = "[]", THEN mp, OF hyp2]
  from B2 t u v lo have r3: "T Parse_plain (loadToCacheStore ?e2) ''en'' (Key ?t) [] =
      (T_format Parse_plain (Locale ?t) (Value ?t) [], loadToCacheStore ?e2)"
    by blast
  have c3: "fst (T Parse_plain (SetCacheStore ?e (memory_store ?s)) ''en'' ''hello'' []) = ''Hello''"
    using r3 unfolding sw by (simp add: tr_def T_format_def Parse_plain_def)
  from c1 c2 c3 show ?thesis by blast
qed

end
